theory Spec2Isabelle
  imports Main "HOL-Library.Sublist"
begin

section \<open>Python string operations used by update\_sitemap.py\<close>

text \<open>
  A Python \<open>str\<close> is modelled as a \<open>string\<close>; one \<open>char\<close> stands for one code point
  below 256. \<open>isspace\<close> lists the code points of that range for which Python's
  \<open>str.isspace\<close> holds; \<open>str.strip()\<close> and \<open>str.split()\<close> (no argument) use it.
\<close>

definition isspace :: "char \<Rightarrow> bool" where
  "isspace c = (c = CHR 0x09 \<or> c = CHR 0x0A \<or> c = CHR 0x0B \<or> c = CHR 0x0C \<or> c = CHR 0x0D
     \<or> c = CHR 0x1C \<or> c = CHR 0x1D \<or> c = CHR 0x1E \<or> c = CHR 0x1F \<or> c = CHR 0x20
     \<or> c = CHR 0x85 \<or> c = CHR 0xA0)"

definition py_strip :: "string \<Rightarrow> string" where
  "py_strip s = rev (dropWhile isspace (rev (dropWhile isspace s)))"

text \<open>\<open>s.split()\<close>: the maximal runs of non-whitespace characters, left to right.
  \<open>cur\<close> is the run being read, reversed.\<close>

fun split_ws_from :: "string \<Rightarrow> string \<Rightarrow> string list" where
  "split_ws_from cur [] = (if cur = [] then [] else [rev cur])"
| "split_ws_from cur (c # cs) =
     (if isspace c
      then (if cur = [] then split_ws_from [] cs else rev cur # split_ws_from [] cs)
      else split_ws_from (c # cur) cs)"

definition py_split_ws :: "string \<Rightarrow> string list" where
  "py_split_ws s = split_ws_from [] s"

text \<open>\<open>sub in s\<close> for strings: \<open>sub\<close> occurs in \<open>s\<close> as a contiguous substring.\<close>

fun py_in :: "string \<Rightarrow> string \<Rightarrow> bool" where
  "py_in sub [] = (sub = [])"
| "py_in sub (c # cs) = (prefix sub (c # cs) \<or> py_in sub cs)"

text \<open>\<open>s.split(sep)\<close> for a non-empty separator: the pieces between the non-overlapping
  occurrences of \<open>sep\<close>, found left to right. (Python raises ValueError for an empty
  separator; the script only splits at the domain constant. With an empty separator the
  function below returns the whole string as one piece.)\<close>

fun split_from :: "string \<Rightarrow> string \<Rightarrow> string \<Rightarrow> string list" where
  "split_from sep cur [] = [rev cur]"
| "split_from sep cur (c # cs) =
     (if sep \<noteq> [] \<and> prefix sep (c # cs)
      then rev cur # split_from sep [] (drop (length sep) (c # cs))
      else split_from sep (c # cur) cs)"

definition py_split :: "string \<Rightarrow> string \<Rightarrow> string list" where
  "py_split sep s = split_from sep [] s"

text \<open>\<open>s.replace(old, new)\<close>: every non-overlapping occurrence of \<open>old\<close>, left to right,
  becomes \<open>new\<close>; an empty \<open>old\<close> matches before every character and at the end.\<close>

fun py_replace :: "string \<Rightarrow> string \<Rightarrow> string \<Rightarrow> string" where
  "py_replace old new [] = (if old = [] then new else [])"
| "py_replace old new (c # cs) =
     (if old = [] then new @ c # py_replace old new cs
      else if prefix old (c # cs) then new @ py_replace old new (drop (length old) (c # cs))
      else c # py_replace old new cs)"

text \<open>
  \<open>xml.sax.saxutils.escape(data)\<close> with the default (empty) \<open>entities\<close> argument, as the
  script calls it. The library function is
  \<^verbatim>\<open>data = data.replace("&", "&amp;"); data = data.replace(">", "&gt;");
  data = data.replace("<", "&lt;")\<close>.
\<close>

definition saxutils_escape :: "string \<Rightarrow> string" where
  "saxutils_escape data =
     py_replace ''<'' ''&lt;'' (py_replace ''>'' ''&gt;'' (py_replace ''&'' ''&amp;'' data))"

text \<open>The replacement of a single character by \<open>saxutils_escape\<close>, used to reason about it.\<close>

definition escape_char :: "char \<Rightarrow> string" where
  "escape_char c =
     (if c = CHR ''&'' then ''&amp;''
      else if c = CHR ''>'' then ''&gt;''
      else if c = CHR ''<'' then ''&lt;''
      else [c])"

subsection \<open>Reading character data back\<close>

text \<open>
  What an XML parser does with the character data of an element, as far as the script's
  output needs it. The text runs up to the next \<open><\<close>. A character that XML 1.0 does not
  allow (a control character other than tab, line feed and carriage return), the
  sequence \<open>]]>\<close>, a \<open>&\<close> that starts none of the five predefined entity references, and
  input that ends before a \<open><\<close> are not well-formed (\<open>None\<close>). Each entity reference stands
  for its character; \<open>entity_ref s\<close> recognises a reference at the start of \<open>s\<close> (after the
  \<open>&\<close>) and gives its character and length. Line ends are normalised: a carriage return
  followed by a line feed, and a carriage return alone, are read as one line feed.
  Numeric character references, which the script never writes, are not part of the model.
\<close>

definition xml_char :: "char \<Rightarrow> bool" where
  "xml_char c = (c = CHR 0x09 \<or> c = CHR 0x0A \<or> c = CHR 0x0D \<or> 32 \<le> (of_char c :: nat))"

definition entity_ref :: "string \<Rightarrow> (char \<times> nat) option" where
  "entity_ref s =
     (if prefix ''amp;'' s then Some (CHR ''&'', 4)
      else if prefix ''lt;'' s then Some (CHR ''<'', 3)
      else if prefix ''gt;'' s then Some (CHR ''>'', 3)
      else if prefix ''quot;'' s then Some (CHR 0x22, 5)
      else if prefix ''apos;'' s then Some (CHR 0x27, 5)
      else None)"

fun xml_chardata :: "string \<Rightarrow> (string \<times> string) option" where
  "xml_chardata [] = None"
| "xml_chardata (c # cs) =
     (if c = CHR ''<'' then Some ([], c # cs)
      else if \<not> xml_char c \<or> prefix '']]>'' (c # cs) then None
      else if c = CHR ''&'' then
        (case entity_ref cs of
           None \<Rightarrow> None
         | Some (d, n) \<Rightarrow> map_option (\<lambda>(t, r). (d # t, r)) (xml_chardata (drop n cs)))
      else if c = CHR 0x0D \<and> prefix [CHR 0x0A] cs then xml_chardata cs
      else if c = CHR 0x0D then map_option (\<lambda>(t, r). (CHR 0x0A # t, r)) (xml_chardata cs)
      else map_option (\<lambda>(t, r). (c # t, r)) (xml_chardata cs))"

text \<open>The line-end normalisation of XML 1.0 (section 2.11) on a text of its own.\<close>

fun normalize_eol :: "string \<Rightarrow> string" where
  "normalize_eol [] = []"
| "normalize_eol (c # cs) =
     (if c = CHR 0x0D \<and> prefix [CHR 0x0A] cs then normalize_eol cs
      else if c = CHR 0x0D then CHR 0x0A # normalize_eol cs
      else c # normalize_eol cs)"

section \<open>The sitemap document\<close>

text \<open>
  An \<open>xml.etree.ElementTree\<close> element: its tag (with the namespace in braces), its text
  (\<open>None\<close> when the element has no character data) and its child elements in document
  order. The script reads and writes nothing else of an element.
\<close>

datatype element = Element (tag: string) (etext: "string option") (children: "element list")

definition ns_tag :: "string \<Rightarrow> string" where
  "ns_tag name = ''{http://www.sitemaps.org/schemas/sitemap/0.9}'' @ name"

text \<open>\<open>e.findall("sitemap:name", ns)\<close> and \<open>e.find("sitemap:name", ns)\<close>: the direct
  children with that tag, and the first of them.\<close>

definition findall :: "string \<Rightarrow> element \<Rightarrow> element list" where
  "findall name e = filter (\<lambda>c. tag c = ns_tag name) (children e)"

definition find_elem :: "string \<Rightarrow> element \<Rightarrow> element option" where
  "find_elem name e = List.find (\<lambda>c. tag c = ns_tag name) (children e)"

text \<open>Assigning \<open>x.text = v\<close> where \<open>x = e.find("sitemap:name", ns)\<close> changes the first
  child of \<open>e\<close> with that tag, in place.\<close>

fun set_first_text :: "string \<Rightarrow> string \<Rightarrow> element list \<Rightarrow> element list" where
  "set_first_text t v [] = []"
| "set_first_text t v (c # cs) =
     (if tag c = t then Element (tag c) (Some v) (children c) # cs
      else c # set_first_text t v cs)"

definition set_found_text :: "string \<Rightarrow> string \<Rightarrow> element \<Rightarrow> element" where
  "set_found_text name v e =
     Element (tag e) (etext e) (set_first_text (ns_tag name) v (children e))"

text \<open>\<open>x = ET.SubElement(e, t); x.text = v\<close>: a new last child.\<close>

definition SubElement :: "element \<Rightarrow> string \<Rightarrow> string \<Rightarrow> element" where
  "SubElement e t v = Element (tag e) (etext e) (children e @ [Element t (Some v) []])"

subsection \<open>The static tables\<close>

text \<open>A dict literal: later entries overwrite earlier ones with the same key.\<close>

definition dict_of :: "('k \<times> 'v) list \<Rightarrow> 'k \<rightharpoonup> 'v" where
  "dict_of kvs = foldl (\<lambda>m (k, v). m(k \<mapsto> v)) Map.empty kvs"

definition ROUTE_TO_FILE :: "string \<rightharpoonup> string" where
  "ROUTE_TO_FILE = dict_of [(''/'', ''templates/index.html'')]"

text \<open>The priorities are the floats \<open>1.0\<close>, \<open>0.9\<close>, \<open>0.8\<close> in the source, used only through
  \<open>str(PRIORITY_MAP[path])\<close>; the table holds that rendering.\<close>

definition PRIORITY_MAP :: "string \<rightharpoonup> string" where
  "PRIORITY_MAP = dict_of [(''/'', ''1.0''), (''/page_route'', ''0.9''), (''/page_route'', ''0.8'')]"

definition CHANGEFREQ_MAP :: "string \<rightharpoonup> string" where
  "CHANGEFREQ_MAP = dict_of [(''/'', ''weekly''), (''/page_route'', ''weekly''),
     (''/page_route'', ''daily''), (''/page_route'', ''monthly''), (''/page_route'', ''yearly'')]"

definition domain :: string where
  "domain = ''yourdomainname.com''"

section \<open>The environment\<close>

datatype py_exc =
    AttributeError
  | IndexError
  | ParseError
  | OSError
  | FileExistsError
  | FailedToReplace
  | ValueError
  | OverflowError
  | SystemExit nat

text \<open>What \<open>subprocess.run(["git", "log", ...], check=True)\<close> does, as far as
  \<open>get_git_lastmod\<close> tells the cases apart: it completes with exit status 0 and some
  standard output, the command exits with a non-zero status, or the executable is not
  found. Any other exception of \<open>subprocess.run\<close> would leave the function uncaught and is
  not part of the model.\<close>

datatype git_outcome = Completed string | CalledProcessError | FileNotFoundError

text \<open>The ways \<open>datetime.fromtimestamp\<close> fails: it raises ValueError when the year of
  the timestamp is outside 1 to 9999, OverflowError when the timestamp is outside the
  range of the platform's time functions, OSError when the system call fails.\<close>

datatype conversion_error = YearOutOfRange | TimestampOutOfRange | LocaltimeFailed

text \<open>The calendar date of a \<open>datetime\<close>: a year from 1 to 9999, a month from 1 to 12, a
  day from 1 to 31. No \<open>datetime\<close> exists outside these ranges.\<close>

record date =
  year :: nat
  month :: nat
  day :: nat

text \<open>
  The collaborators of one run. \<open>'t\<close> is the type of file timestamps, which the script
  only passes from \<open>os.path.getmtime\<close> (\<open>None\<close>: it raises OSError) to
  \<open>datetime.fromtimestamp\<close>. That conversion gives the local date of the timestamp, or
  fails in one of the three ways of \<open>conversion_error\<close>. \<open>now\<close> is the date
  \<open>datetime.now()\<close> gives, the same during the whole run. \<open>xml_parse\<close> is \<open>ET.parse\<close> on
  the content of the sitemap file (\<open>None\<close>: ParseError). \<open>tmp_name\<close> is the
  name \<open>NamedTemporaryFile\<close> picks; \<open>writes_allowed\<close> is the number of \<open>write\<close> calls on it
  that succeed before one raises OSError (\<open>None\<close>: all succeed); \<open>move_ok\<close> tells whether
  \<open>shutil.move\<close> succeeds.
\<close>

record 't env =
  project_root :: string
  git_log :: "string \<Rightarrow> git_outcome"
  path_exists :: "string \<Rightarrow> bool"
  getmtime :: "string \<Rightarrow> 't option"
  fromtimestamp :: "'t \<Rightarrow> conversion_error + date"
  now :: date
  xml_parse :: "string \<Rightarrow> element option"
  tmp_name :: string
  writes_allowed :: "nat option"
  move_ok :: bool

definition path_join :: "string \<Rightarrow> string \<Rightarrow> string" where
  "path_join dir name = dir @ ''/'' @ name"

section \<open>Date resolution\<close>

definition get_git_lastmod :: "'t env \<Rightarrow> string \<Rightarrow> py_exc + (string option \<times> bool option)" where
  "get_git_lastmod env file_path =
     (case git_log env file_path of
        Completed out \<Rightarrow>
          (if py_strip out \<noteq> [] then
             (case py_split_ws (py_strip out) of
                [] \<Rightarrow> Inl IndexError
              | git_date # _ \<Rightarrow> Inr (Some git_date, Some True))
           else Inr (None, Some False))
      | CalledProcessError \<Rightarrow> Inr (None, Some False)
      | FileNotFoundError \<Rightarrow> Inr (None, None))"

text \<open>
  \<open>strftime("%Y-%m-%d")\<close>, as the C library of Linux formats it: the year in decimal
  without leading zeros (so \<open>999\<close> for the year 999), the month and the day with two
  digits. \<open>year_digits\<close> covers the years a \<open>datetime\<close> can have, at most 9999.
\<close>

definition digit :: "nat \<Rightarrow> char" where
  "digit n = ''0123456789'' ! (n mod 10)"

definition year_digits :: "nat \<Rightarrow> string" where
  "year_digits y =
     (if y < 10 then [digit y]
      else if y < 100 then [digit (y div 10), digit y]
      else if y < 1000 then [digit (y div 100), digit (y div 10), digit y]
      else [digit (y div 1000), digit (y div 100), digit (y div 10), digit y])"

definition strftime_ymd :: "date \<Rightarrow> string" where
  "strftime_ymd d =
     year_digits (year d)
     @ ''-'' @ [digit (month d div 10), digit (month d)]
     @ ''-'' @ [digit (day d div 10), digit (day d)]"

text \<open>\<open>get_file_lastmod\<close> (lines 80 to 89). The handler catches OSError only: a
  ValueError or OverflowError of \<open>datetime.fromtimestamp\<close> leaves the function.\<close>

definition get_file_lastmod :: "'t env \<Rightarrow> string \<Rightarrow> py_exc + string" where
  "get_file_lastmod env file_path =
     (if path_exists env file_path then
        (case getmtime env file_path of
           Some mtime \<Rightarrow>
             (case fromtimestamp env mtime of
                Inr d \<Rightarrow> Inr (strftime_ymd d)
              | Inl LocaltimeFailed \<Rightarrow> Inr (strftime_ymd (now env))
              | Inl YearOutOfRange \<Rightarrow> Inl ValueError
              | Inl TimestampOutOfRange \<Rightarrow> Inl OverflowError)
         | None \<Rightarrow> Inr (strftime_ymd (now env)))
      else Inr (strftime_ymd (now env)))"

section \<open>Updating the entries\<close>

text \<open>The lines the script prints, with the values it interpolates: one constructor per
  \<open>print\<close> call of \<open>update_sitemap\<close>; \<open>Banner\<close> stands for the three lines \<open>main\<close> prints
  first, and \<open>ErrorUpdating\<close> for its error line and the traceback.\<close>

datatype log =
    SitemapNotFound string
  | NoTemplateMapping string
  | NotTrackedInGit string
  | Updated string "string option" string string
  | UpToDate string string
  | AddedLastmod string string string
  | UpdatedSuccessfully nat
  | Location string
  | Banner string bool
  | ErrorUpdating py_exc

text \<open>The state of the first loop: the running counter and what was printed so far.\<close>

record loop_state =
  updated_count :: nat
  printed :: "log list"

definition print :: "log \<Rightarrow> loop_state \<Rightarrow> loop_state" where
  "print l st = st\<lparr>printed := printed st @ [l]\<rparr>"

definition count_up :: "loop_state \<Rightarrow> loop_state" where
  "count_up st = st\<lparr>updated_count := updated_count st + 1\<rparr>"

text \<open>Lines 115 to 120: the path of a \<open>loc\<close> text; \<open>Inr None\<close> is the \<open>continue\<close> of
  line 120, and the index \<open>[1]\<close> raises IndexError on a list shorter than two.\<close>

definition extract_path :: "string \<Rightarrow> py_exc + string option" where
  "extract_path loc_text =
     (let url_path = py_strip loc_text in
      if py_in domain url_path then
        (case py_split domain url_path of
           _ # p # _ \<Rightarrow> Inr (Some (if p = [] then ''/'' else p))
         | _ \<Rightarrow> Inl IndexError)
      else Inr None)"

text \<open>A fallback to the file system (lines 132, 141, 145 and 148): the date with the
  given source tag, or the exception of \<open>get_file_lastmod\<close> with what was printed so far.\<close>

definition file_date ::
  "'t env \<Rightarrow> string \<Rightarrow> string \<Rightarrow> loop_state
     \<Rightarrow> (py_exc \<times> loop_state) + (string \<times> string \<times> loop_state)" where
  "file_date env template_path source st =
     (case get_file_lastmod env template_path of
        Inl e \<Rightarrow> Inl (e, st)
      | Inr lastmod_date \<Rightarrow> Inr (lastmod_date, source, st))"

text \<open>Lines 128 to 151: the date, the source tag and the state after the warning, or
  the exception raised and the state at that point.\<close>

definition resolve_lastmod ::
  "'t env \<Rightarrow> bool \<Rightarrow> string \<Rightarrow> loop_state
     \<Rightarrow> (py_exc \<times> loop_state) + (string \<times> string \<times> loop_state)" where
  "resolve_lastmod env use_filesystem template_file st =
     (let template_path = path_join (project_root env) template_file in
      if use_filesystem then file_date env template_path ''filesystem'' st
      else
        (case get_git_lastmod env template_path of
           Inl e \<Rightarrow> Inl (e, st)
         | Inr (lastmod_date, is_tracked) \<Rightarrow>
             (case lastmod_date of
                None \<Rightarrow>
                  (if is_tracked = Some False then
                     file_date env template_path ''filesystem (not in git)''
                       (print (NotTrackedInGit template_file) st)
                   else if is_tracked = None then
                     file_date env template_path ''filesystem (git unavailable)'' st
                   else file_date env template_path ''filesystem'' st)
              | Some d \<Rightarrow> Inr (d, ''git'', st))))"

text \<open>Lines 153 to 168.\<close>

definition update_lastmod ::
  "string \<Rightarrow> string \<Rightarrow> string \<Rightarrow> element \<Rightarrow> loop_state \<Rightarrow> element \<times> loop_state" where
  "update_lastmod path lastmod_date source url_elem st =
     (case find_elem ''lastmod'' url_elem of
        Some lastmod_elem \<Rightarrow>
          (let old_date = etext lastmod_elem;
               url_elem' = set_found_text ''lastmod'' lastmod_date url_elem
           in if old_date \<noteq> Some lastmod_date
              then (url_elem', count_up (print (Updated path old_date lastmod_date source) st))
              else (url_elem', print (UpToDate path lastmod_date) st))
      | None \<Rightarrow>
          (SubElement url_elem (ns_tag ''lastmod'') lastmod_date,
           count_up (print (AddedLastmod path lastmod_date source) st)))"

text \<open>Lines 170 to 178.\<close>

definition update_priority :: "string \<Rightarrow> element \<Rightarrow> loop_state \<Rightarrow> element \<times> loop_state" where
  "update_priority path url_elem st =
     (case (find_elem ''priority'' url_elem, PRIORITY_MAP path) of
        (None, Some v) \<Rightarrow> (SubElement url_elem (ns_tag ''priority'') v, count_up st)
      | (Some priority_elem, Some v) \<Rightarrow> (set_found_text ''priority'' v url_elem, st)
      | _ \<Rightarrow> (url_elem, st))"

text \<open>Lines 180 to 187.\<close>

definition update_changefreq :: "string \<Rightarrow> element \<Rightarrow> loop_state \<Rightarrow> element \<times> loop_state" where
  "update_changefreq path url_elem st =
     (case (find_elem ''changefreq'' url_elem, CHANGEFREQ_MAP path) of
        (None, Some v) \<Rightarrow> (SubElement url_elem (ns_tag ''changefreq'') v, count_up st)
      | (Some changefreq_elem, Some v) \<Rightarrow> (set_found_text ''changefreq'' v url_elem, st)
      | _ \<Rightarrow> (url_elem, st))"

text \<open>Lines 122 to 187, for an entry whose path is known.\<close>

definition update_fields ::
  "'t env \<Rightarrow> bool \<Rightarrow> string \<Rightarrow> element \<Rightarrow> loop_state \<Rightarrow> (py_exc + element) \<times> loop_state" where
  "update_fields env use_filesystem path url_elem st =
     (case ROUTE_TO_FILE path of
        None \<Rightarrow> (Inr url_elem, print (NoTemplateMapping path) st)
      | Some template_file \<Rightarrow>
          if template_file = [] then (Inr url_elem, print (NoTemplateMapping path) st)
          else
            (case resolve_lastmod env use_filesystem template_file st of
               Inl (e, st0) \<Rightarrow> (Inl e, st0)
             | Inr (lastmod_date, source, st0) \<Rightarrow>
                 (let (u1, st1) = update_lastmod path lastmod_date source url_elem st0;
                      (u2, st2) = update_priority path u1 st1;
                      (u3, st3) = update_changefreq path u2 st2
                  in (Inr u3, st3))))"

text \<open>The body of the first loop (lines 111 to 187) for one \<open>url\<close> element. A \<open>loc\<close>
  element without text makes \<open>loc_elem.text.strip()\<close> raise AttributeError.\<close>

definition update_entry ::
  "'t env \<Rightarrow> bool \<Rightarrow> element \<Rightarrow> loop_state \<Rightarrow> (py_exc + element) \<times> loop_state" where
  "update_entry env use_filesystem url_elem st =
     (case find_elem ''loc'' url_elem of
        None \<Rightarrow> (Inr url_elem, st)
      | Some loc_elem \<Rightarrow>
          (case etext loc_elem of
             None \<Rightarrow> (Inl AttributeError, st)
           | Some t \<Rightarrow>
               (case extract_path t of
                  Inl e \<Rightarrow> (Inl e, st)
                | Inr None \<Rightarrow> (Inr url_elem, st)
                | Inr (Some path) \<Rightarrow> update_fields env use_filesystem path url_elem st)))"

text \<open>The first loop, over the children of the root: the \<open>url\<close> elements are updated in
  document order, the other children are not visited. An exception ends the loop.\<close>

fun update_entries ::
  "'t env \<Rightarrow> bool \<Rightarrow> element list \<Rightarrow> loop_state \<Rightarrow> (py_exc + element list) \<times> loop_state" where
  "update_entries env use_filesystem [] st = (Inr [], st)"
| "update_entries env use_filesystem (c # cs) st =
     (if tag c = ns_tag ''url'' then
        (case update_entry env use_filesystem c st of
           (Inl e, st') \<Rightarrow> (Inl e, st')
         | (Inr c', st') \<Rightarrow>
             (case update_entries env use_filesystem cs st' of
                (Inl e, st'') \<Rightarrow> (Inl e, st'')
              | (Inr cs', st'') \<Rightarrow> (Inr (c' # cs'), st'')))
      else
        (case update_entries env use_filesystem cs st of
           (Inl e, st') \<Rightarrow> (Inl e, st')
         | (Inr cs', st') \<Rightarrow> (Inr (c # cs'), st')))"

section \<open>Serialization and persistence\<close>

text \<open>Lines 213 to 216: the four texts of one \<open>url\<close> block, escaped. A Python string is
  false when it is empty, so \<open>x.text\<close> passes the test when it is neither \<open>None\<close> nor empty.\<close>

record url_block =
  loc_text :: string
  lastmod_text :: "string option"
  changefreq_text :: "string option"
  priority_text :: "string option"

definition optional_text :: "element option \<Rightarrow> string option" where
  "optional_text e =
     (case e of
        None \<Rightarrow> None
      | Some x \<Rightarrow>
          (case etext x of
             None \<Rightarrow> None
           | Some t \<Rightarrow> if t \<noteq> [] then Some (saxutils_escape t) else None))"

definition url_block :: "element \<Rightarrow> url_block option" where
  "url_block url_elem =
     (case find_elem ''loc'' url_elem of
        None \<Rightarrow> None
      | Some loc_elem \<Rightarrow>
          Some \<lparr>loc_text =
                  (case etext loc_elem of
                     None \<Rightarrow> []
                   | Some t \<Rightarrow> if t \<noteq> [] then saxutils_escape t else []),
                lastmod_text = optional_text (find_elem ''lastmod'' url_elem),
                changefreq_text = optional_text (find_elem ''changefreq'' url_elem),
                priority_text = optional_text (find_elem ''priority'' url_elem)\<rparr>)"

text \<open>Lines 218 to 226: the \<open>write\<close> calls for one block; an optional line is written when
  its text is neither \<open>None\<close> nor empty.\<close>

definition optional_line :: "string \<Rightarrow> string option \<Rightarrow> string list" where
  "optional_line name t =
     (case t of
        None \<Rightarrow> []
      | Some v \<Rightarrow>
          if v \<noteq> [] then [''        <'' @ name @ ''>'' @ v @ ''</'' @ name @ ''>\<newline>''] else [])"

definition block_writes :: "url_block \<Rightarrow> string list" where
  "block_writes b =
     [''    <url>\<newline>'', ''        <loc>'' @ loc_text b @ ''</loc>\<newline>'']
     @ optional_line ''lastmod'' (lastmod_text b)
     @ optional_line ''changefreq'' (changefreq_text b)
     @ optional_line ''priority'' (priority_text b)
     @ [''    </url>\<newline>'']"

text \<open>The blocks of the second loop (lines 203 to 226), in document order; a \<open>url\<close>
  element without a \<open>loc\<close> child is passed over.\<close>

definition written_blocks :: "element \<Rightarrow> url_block list" where
  "written_blocks root = List.map_filter url_block (findall ''url'' root)"

definition xml_declaration :: string where
  \<open>xml_declaration = ''<?xml version="1.0" encoding="UTF-8"?>\<newline>''\<close>

definition urlset_open :: string where
  \<open>urlset_open = ''<urlset xmlns="http://www.sitemaps.org/schemas/sitemap/0.9">\<newline>''\<close>

text \<open>Lines 200 to 228: all \<open>write\<close> calls on the temporary file, in order.\<close>

definition sitemap_writes :: "element \<Rightarrow> string list" where
  "sitemap_writes root =
     [xml_declaration, urlset_open]
     @ concat (map block_writes (written_blocks root))
     @ [''</urlset>\<newline>'']"

text \<open>The files of the run (path to content) and the standard output.\<close>

record world =
  files :: "string \<rightharpoonup> string"
  stdout :: "log list"

definition sitemap_path :: "'t env \<Rightarrow> string" where
  "sitemap_path env = path_join (path_join (project_root env) ''seo'') ''sitemap.xml''"

definition tmp_path :: "'t env \<Rightarrow> string" where
  "tmp_path env = path_join (path_join (project_root env) ''seo'') (tmp_name env @ ''.xml'')"

text \<open>
  Lines 189 to 239. The temporary file is created exclusively (a name in use is
  FileExistsError here) and is not deleted when the \<open>with\<close> block ends (\<open>delete=False\<close>). A
  \<open>write\<close> that raises leaves the \<open>with\<close> block with the exception; the file then holds
  what was written before. \<open>shutil.move\<close> either puts the temporary file in the place of
  the sitemap or raises and changes nothing; the handler then unlinks the temporary
  file if it exists and raises the exception of line 239.
\<close>

text \<open>Lines 230 to 239, once the temporary file holds \<open>content\<close> and is closed.\<close>

definition persist_move :: "'t env \<Rightarrow> string \<Rightarrow> nat \<Rightarrow> world \<Rightarrow> (py_exc + unit) \<times> world" where
  "persist_move env content count w =
     (if move_ok env then
        (Inr (),
         w\<lparr>files := ((files w)(tmp_path env := None))(sitemap_path env \<mapsto> content),
           stdout := stdout w @ [UpdatedSuccessfully count, Location (sitemap_path env)]\<rparr>)
      else (Inl FailedToReplace, w\<lparr>files := (files w)(tmp_path env := None)\<rparr>))"

definition persist :: "'t env \<Rightarrow> string list \<Rightarrow> nat \<Rightarrow> world \<Rightarrow> (py_exc + unit) \<times> world" where
  "persist env chunks count w =
     (if files w (tmp_path env) \<noteq> None then (Inl FileExistsError, w)
      else
        (case writes_allowed env of
           Some n \<Rightarrow>
             if n < length chunks
             then (Inl OSError, w\<lparr>files := (files w)(tmp_path env \<mapsto> concat (take n chunks))\<rparr>)
             else persist_move env (concat chunks) count w
         | None \<Rightarrow> persist_move env (concat chunks) count w))"

text \<open>\<open>update_sitemap\<close> (lines 92 to 239): the result of the call and the world after it.
  \<open>sys.exit(1)\<close> raises SystemExit.\<close>

definition update_sitemap :: "'t env \<Rightarrow> bool \<Rightarrow> world \<Rightarrow> (py_exc + unit) \<times> world" where
  "update_sitemap env use_filesystem w =
     (case files w (sitemap_path env) of
        None \<Rightarrow>
          (Inl (SystemExit 1), w\<lparr>stdout := stdout w @ [SitemapNotFound (sitemap_path env)]\<rparr>)
      | Some content \<Rightarrow>
          (case xml_parse env content of
             None \<Rightarrow> (Inl ParseError, w)
           | Some root \<Rightarrow>
               (case update_entries env use_filesystem (children root)
                       \<lparr>updated_count = 0, printed = []\<rparr> of
                  (Inl e, st) \<Rightarrow> (Inl e, w\<lparr>stdout := stdout w @ printed st\<rparr>)
                | (Inr cs, st) \<Rightarrow>
                    persist env (sitemap_writes (Element (tag root) (etext root) cs))
                      (updated_count st) (w\<lparr>stdout := stdout w @ printed st\<rparr>))))"

text \<open>\<open>main\<close> after argument parsing (lines 270 to 280): the exit status of the process
  and the world after it. SystemExit is not an \<open>Exception\<close> and leaves with its own
  status; every other exception is printed and the process exits with status 1.\<close>

definition main :: "'t env \<Rightarrow> bool \<Rightarrow> world \<Rightarrow> nat \<times> world" where
  "main env use_filesystem w =
     (case update_sitemap env use_filesystem
             (w\<lparr>stdout := stdout w @ [Banner (project_root env) use_filesystem]\<rparr>) of
        (Inr u, w') \<Rightarrow> (0, w')
      | (Inl (SystemExit n), w') \<Rightarrow> (n, w')
      | (Inl e, w') \<Rightarrow> (1, w'\<lparr>stdout := stdout w' @ [ErrorUpdating e]\<rparr>))"

section \<open>Formats and fixtures used in the statements\<close>

text \<open>The shape \<open>YYYY-MM-DD\<close>: four digits, a hyphen, two digits, a hyphen, two digits.\<close>

definition is_digit :: "char \<Rightarrow> bool" where
  "is_digit c = (c \<in> set ''0123456789'')"

definition is_ymd :: "string \<Rightarrow> bool" where
  "is_ymd s =
     (length s = 10 \<and> list_all is_digit (take 4 s) \<and> s ! 4 = CHR ''-''
      \<and> list_all is_digit (take 2 (drop 5 s)) \<and> s ! 7 = CHR ''-''
      \<and> list_all is_digit (drop 8 s))"

text \<open>
  The scenario of the specification: a sitemap with the single entry
  \<open>https://yourdomainname.com/\<close> without \<open>lastmod\<close>, and a template file whose last commit
  date is \<open>2025-01-15 09:00:00 +0000\<close>. \<open>scenario_root\<close> is the tree of \<open>scenario_content\<close>;
  the file-system answers and the name of the temporary file are arbitrary choices.
\<close>

definition scenario_content :: string where
  \<open>scenario_content =
     ''<?xml version="1.0" encoding="UTF-8"?>\<newline>''
     @ ''<urlset xmlns="http://www.sitemaps.org/schemas/sitemap/0.9">\<newline>''
     @ ''    <url>\<newline>''
     @ ''        <loc>https://yourdomainname.com/</loc>\<newline>''
     @ ''    </url>\<newline>''
     @ ''</urlset>\<newline>''\<close>

definition scenario_root :: element where
  "scenario_root =
     Element (ns_tag ''urlset'') (Some ''\<newline>    '')
       [Element (ns_tag ''url'') (Some ''\<newline>        '')
          [Element (ns_tag ''loc'') (Some ''https://yourdomainname.com/'') []]]"

definition scenario_env :: "nat env" where
  "scenario_env =
     \<lparr>project_root = ''/srv/site'',
      git_log = (\<lambda>p. if p = ''/srv/site/templates/index.html''
                      then Completed ''2025-01-15 09:00:00 +0000\<newline>'' else Completed []),
      path_exists = (\<lambda>p. p = ''/srv/site/templates/index.html''),
      getmtime = (\<lambda>p. if p = ''/srv/site/templates/index.html'' then Some 1736931600 else None),
      fromtimestamp = (\<lambda>t. Inr \<lparr>year = 2025, month = 1, day = 15\<rparr>),
      now = \<lparr>year = 2026, month = 11, day = 4\<rparr>,
      xml_parse = (\<lambda>content. if content = scenario_content then Some scenario_root else None),
      tmp_name = ''tmpk3x9'',
      writes_allowed = None,
      move_ok = True\<rparr>"

definition scenario_world :: world where
  "scenario_world =
     \<lparr>files = [''/srv/site/seo/sitemap.xml'' \<mapsto> scenario_content], stdout = []\<rparr>"

text \<open>The sitemap file the scenario expects after the run.\<close>

definition scenario_expected :: string where
  \<open>scenario_expected =
     ''<?xml version="1.0" encoding="UTF-8"?>\<newline>''
     @ ''<urlset xmlns="http://www.sitemaps.org/schemas/sitemap/0.9">\<newline>''
     @ ''    <url>\<newline>''
     @ ''        <loc>https://yourdomainname.com/</loc>\<newline>''
     @ ''        <lastmod>2025-01-15</lastmod>\<newline>''
     @ ''        <changefreq>weekly</changefreq>\<newline>''
     @ ''        <priority>1.0</priority>\<newline>''
     @ ''    </url>\<newline>''
     @ ''</urlset>\<newline>''\<close>

text \<open>The \<open>url\<close> element the scenario expects after the first loop; new children are
  appended in the order lastmod, priority, changefreq.\<close>

definition scenario_url :: element where
  "scenario_url =
     Element (ns_tag ''url'') (Some ''\<newline>        '')
       [Element (ns_tag ''loc'') (Some ''https://yourdomainname.com/'') [],
        Element (ns_tag ''lastmod'') (Some ''2025-01-15'') [],
        Element (ns_tag ''priority'') (Some ''1.0'') [],
        Element (ns_tag ''changefreq'') (Some ''weekly'') []]"

text \<open>The scenario with faults in persistence: \<open>n\<close> bounds the \<open>write\<close> calls that
  succeed, \<open>ok\<close> tells whether the final move succeeds.\<close>

definition faulty_env :: "nat option \<Rightarrow> bool \<Rightarrow> nat env" where
  "faulty_env n ok = scenario_env\<lparr>writes_allowed := n, move_ok := ok\<rparr>"

text \<open>The scenario with a given outcome \<open>r\<close> of \<open>datetime.fromtimestamp\<close> on the
  modification time of the template file.\<close>

definition mtime_env :: "conversion_error + date \<Rightarrow> nat env" where
  "mtime_env r = scenario_env\<lparr>fromtimestamp := \<lambda>t. r\<rparr>"

text \<open>The \<open>loc\<close> texts of a document, in document order: for every \<open>url\<close> child of the
  root that has a \<open>loc\<close> child, the text of the first one.\<close>

definition input_locs :: "element \<Rightarrow> string option list" where
  "input_locs root = map etext (List.map_filter (find_elem ''loc'') (findall ''url'' root))"












section \<open>Properties\<close>

lemma py_replace_char:
  "py_replace [a] new s = concat (map (\<lambda>c. if c = a then new else [c]) s)"
  by (induction s) auto

lemma saxutils_escape_Nil: "saxutils_escape [] = []"
  by (simp add: saxutils_escape_def)

lemma saxutils_escape_Cons: "saxutils_escape (c # s) = escape_char c @ saxutils_escape s"
  by (simp add: saxutils_escape_def py_replace_char escape_char_def)

lemma saxutils_escape_concat: "saxutils_escape s = concat (map escape_char s)"
  by (induction s) (simp_all add: saxutils_escape_Nil saxutils_escape_Cons)

lemma escaped_prefix_lf:
  "prefix [CHR 0x0A] (saxutils_escape v @ CHR ''<'' # r) \<longleftrightarrow> prefix [CHR 0x0A] v"
  by (cases v) (auto simp: saxutils_escape_Nil saxutils_escape_Cons escape_char_def)

lemma escaped_no_gt_first: "\<not> prefix ''>'' (saxutils_escape v @ CHR ''<'' # r)"
  by (cases v) (auto simp: saxutils_escape_Nil saxutils_escape_Cons escape_char_def)

lemma escaped_no_cdata_end: "\<not> prefix '']>'' (saxutils_escape v @ CHR ''<'' # r)"
proof (cases v)
  case Nil
  then show ?thesis by (simp add: saxutils_escape_Nil)
next
  case (Cons c cs)
  show ?thesis using escaped_no_gt_first [of cs r]
    by (auto simp: Cons saxutils_escape_Cons escape_char_def)
qed

lemma xml_chardata_escape:
  "list_all xml_char v \<Longrightarrow>
     xml_chardata (saxutils_escape v @ CHR ''<'' # r) = Some (normalize_eol v, CHR ''<'' # r)"
proof (induction v)
  case Nil
  then show ?case by (simp add: saxutils_escape_Nil)
next
  case (Cons c v)
  then have ih: "xml_chardata (saxutils_escape v @ CHR ''<'' # r)
                   = Some (normalize_eol v, CHR ''<'' # r)"
    and c: "xml_char c" by simp_all
  show ?case
    using ih c escaped_prefix_lf [of v r] escaped_no_cdata_end [of v r]
    by (auto simp: saxutils_escape_Cons escape_char_def entity_ref_def xml_char_def)
qed

lemma normalize_eol_id: "CHR 0x0D \<notin> set v \<Longrightarrow> normalize_eol v = v"
  by (induction v) auto

subsection \<open>Escaping\<close>

lemma escape_no_lt: "CHR ''<'' \<notin> set (saxutils_escape v)"
  by (induction v) (simp_all add: saxutils_escape_Nil saxutils_escape_Cons escape_char_def)

lemma escape_no_gt: "CHR ''>'' \<notin> set (saxutils_escape v)"
  by (induction v) (simp_all add: saxutils_escape_Nil saxutils_escape_Cons escape_char_def)

lemma find_elem_Cons:
  "find_elem name (Element t x (c # cs)) =
     (if tag c = ns_tag name then Some c else find_elem name (Element t x cs))"
  by (simp add: find_elem_def)

text \<open>
  Claim C2, as amended. The serializer passes the text of \<open>loc\<close> and every non-empty text
  of \<open>lastmod\<close>, \<open>changefreq\<close> and \<open>priority\<close> through \<open>saxutils_escape\<close>, which replaces
  every \<open>&\<close>, \<open><\<close> and \<open>>\<close> by its entity reference and leaves the quotation mark and the
  apostrophe as they are: the escaped text holds no \<open><\<close> and no \<open>>\<close>. For a value made of
  characters that XML allows (every value that came out of the parser is), reading the
  escaped text back as character data, up to the closing tag that follows it in the
  output, gives the value with its line ends normalised; that is the value itself when
  it contains no carriage return.
\<close>

theorem escape_roundtrip:
  "map_option loc_text (url_block (Element t x (Element (ns_tag ''loc'') (Some v) cs # rest)))
     = Some (saxutils_escape v)
   \<and> optional_text (Some (Element t' (Some v) cs'))
     = (if v = [] then None else Some (saxutils_escape v))
   \<and> CHR ''<'' \<notin> set (saxutils_escape v) \<and> CHR ''>'' \<notin> set (saxutils_escape v)
   \<and> (list_all xml_char v \<longrightarrow>
        xml_chardata (saxutils_escape v @ ''</'' @ name @ ''>'' @ r)
          = Some (normalize_eol v, ''</'' @ name @ ''>'' @ r))
   \<and> (CHR 0x0D \<notin> set v \<longrightarrow> normalize_eol v = v)"
proof -
  have "list_all xml_char v \<Longrightarrow>
        xml_chardata (saxutils_escape v @ CHR ''<'' # (''/'' @ name @ ''>'' @ r))
          = Some (normalize_eol v, CHR ''<'' # (''/'' @ name @ ''>'' @ r))"
    by (rule xml_chardata_escape)
  then show ?thesis
    by (simp add: url_block_def find_elem_Cons optional_text_def saxutils_escape_Nil
        escape_no_lt escape_no_gt normalize_eol_id)
qed

theorem escape_roundtrip_witness:
  "optional_text (Some (Element (ns_tag ''lastmod'')
       (Some [CHR ''<'', CHR 0x22, CHR ''&'', CHR 0x27, CHR ''>'', CHR 0x0A]) []))
     = Some (''&lt;'' @ [CHR 0x22] @ ''&amp;'' @ [CHR 0x27] @ ''&gt;'' @ [CHR 0x0A])
   \<and> xml_chardata
       (''&lt;'' @ [CHR 0x22] @ ''&amp;'' @ [CHR 0x27] @ ''&gt;'' @ [CHR 0x0A] @ ''</lastmod>'')
     = Some ([CHR ''<'', CHR 0x22, CHR ''&'', CHR 0x27, CHR ''>'', CHR 0x0A], ''</lastmod>'')"
  using escape_roundtrip [where v = "[CHR ''<'', CHR 0x22, CHR ''&'', CHR 0x27, CHR ''>'', CHR 0x0A]"
      and t = "[]" and x = None and cs = "[]" and rest = "[]" and t' = "ns_tag ''lastmod''"
      and cs' = "[]" and name = "''lastmod''" and r = "[]"]
  by (simp add: saxutils_escape_Cons saxutils_escape_Nil escape_char_def xml_char_def)

text \<open>
  Claim C2 as stated fails in two ways. For the \<open>loc\<close> text \<open>a"'b\<close> the text written
  between the \<open>loc\<close> tags is \<open>a"'b\<close> itself: the quotation mark (\<open>0x22\<close>) and the
  apostrophe (\<open>0x27\<close>) are not escaped. And a carriage return (\<open>0x0D\<close>), which a \<open>loc\<close>
  text has when the input wrote it as a character reference, is written as it is and
  read back as a line feed (\<open>0x0A\<close>): the text \<open>a\<close>, carriage return, \<open>b\<close> does not come
  back as itself.
\<close>

theorem quotes_written_literally:
  "map_option loc_text
     (url_block (Element (ns_tag ''url'') None
        [Element (ns_tag ''loc'') (Some [CHR ''a'', CHR 0x22, CHR 0x27, CHR ''b'']) []]))
   = Some [CHR ''a'', CHR 0x22, CHR 0x27, CHR ''b'']
   \<and> map_option loc_text
     (url_block (Element (ns_tag ''url'') None
        [Element (ns_tag ''loc'') (Some [CHR ''a'', CHR 0x0D, CHR ''b'']) []]))
   = Some [CHR ''a'', CHR 0x0D, CHR ''b'']
   \<and> xml_chardata ([CHR ''a'', CHR 0x0D, CHR ''b''] @ ''</loc>'')
   = Some ([CHR ''a'', CHR 0x0A, CHR ''b''], ''</loc>'')"
  by (simp add: url_block_def find_elem_Cons saxutils_escape_Cons saxutils_escape_Nil
      escape_char_def xml_char_def)

subsection \<open>Date resolution\<close>

lemma split_ws_all_space:
  "\<forall>c \<in> set ws. isspace c \<Longrightarrow> split_ws_from cur ws = (if cur = [] then [] else [rev cur])"
proof (induction ws arbitrary: cur)
  case Nil
  then show ?case by simp
next
  case (Cons a ws)
  then have "split_ws_from [] ws = []" by simp
  with Cons.prems show ?case by simp
qed

lemma split_ws_append_space:
  "\<forall>c \<in> set ws. isspace c \<Longrightarrow> split_ws_from cur (xs @ ws) = split_ws_from cur xs"
  by (induction xs arbitrary: cur) (simp_all add: split_ws_all_space)

lemma split_ws_dropWhile: "split_ws_from [] (dropWhile isspace s) = split_ws_from [] s"
  by (induction s) simp_all

lemma rev_dropWhile_rev_decomp:
  "\<exists>ws. s = rev (dropWhile P (rev s)) @ ws \<and> (\<forall>c \<in> set ws. P c)"
proof -
  have "rev s = takeWhile P (rev s) @ dropWhile P (rev s)" by simp
  then have "s = rev (dropWhile P (rev s)) @ rev (takeWhile P (rev s))"
    by (metis rev_append rev_rev_ident)
  moreover have "\<forall>c \<in> set (rev (takeWhile P (rev s))). P c"
    by (auto dest: set_takeWhileD)
  ultimately show ?thesis by blast
qed

lemma py_split_ws_strip: "py_split_ws (py_strip s) = py_split_ws s"
proof -
  obtain ws where ws: "dropWhile isspace s = rev (dropWhile isspace (rev (dropWhile isspace s))) @ ws"
    "\<forall>c \<in> set ws. isspace c"
    using rev_dropWhile_rev_decomp [of "dropWhile isspace s" isspace] by blast
  have "py_split_ws s = split_ws_from [] (dropWhile isspace s)"
    by (simp add: py_split_ws_def split_ws_dropWhile)
  also have "\<dots> = split_ws_from [] (py_strip s @ ws)"
    using ws(1) by (simp add: py_strip_def)
  also have "\<dots> = py_split_ws (py_strip s)"
    using ws(2) by (simp add: split_ws_append_space py_split_ws_def)
  finally show ?thesis by simp
qed

lemma split_ws_from_Nil_iff:
  "split_ws_from cur s = [] \<longleftrightarrow> cur = [] \<and> (\<forall>c \<in> set s. isspace c)"
  by (induction s arbitrary: cur) auto

lemma py_strip_Nil_iff: "py_strip s = [] \<longleftrightarrow> (\<forall>c \<in> set s. isspace c)"
proof
  assume "py_strip s = []"
  then have "\<forall>c \<in> set (dropWhile isspace s). isspace c"
    by (simp add: py_strip_def)
  then have "dropWhile isspace s = []"
    by (metis dropWhile_eq_Nil_conv dropWhile_idem)
  then show "\<forall>c \<in> set s. isspace c" by simp
next
  assume "\<forall>c \<in> set s. isspace c"
  then show "py_strip s = []" by (auto simp: py_strip_def dest: set_dropWhileD)
qed

lemma py_split_ws_Nil_iff: "py_split_ws s = [] \<longleftrightarrow> py_strip s = []"
  by (simp add: py_split_ws_def split_ws_from_Nil_iff py_strip_Nil_iff)

lemma get_git_lastmod_eq:
  "get_git_lastmod env file_path =
     (case git_log env file_path of
        CalledProcessError \<Rightarrow> Inr (None, Some False)
      | FileNotFoundError \<Rightarrow> Inr (None, None)
      | Completed out \<Rightarrow>
          (case py_split_ws out of
             [] \<Rightarrow> Inr (None, Some False)
           | git_date # _ \<Rightarrow> Inr (Some git_date, Some True)))"
  by (simp add: get_git_lastmod_def py_split_ws_strip py_split_ws_Nil_iff [symmetric]
      split: git_outcome.split list.split)



subsection \<open>Elements after an update\<close>

lemma is_digit_digit: "is_digit (digit n)"
proof -
  have "''0123456789'' ! (n mod 10) \<in> set ''0123456789''"
    by (rule nth_mem) simp
  then show ?thesis by (simp only: is_digit_def digit_def)
qed

lemma is_ymd_strftime: "1000 \<le> year d \<Longrightarrow> is_ymd (strftime_ymd d)"
  by (simp add: is_ymd_def strftime_ymd_def year_digits_def is_digit_digit)

lemma ns_tag_eq: "ns_tag a = ns_tag b \<longleftrightarrow> a = b"
  by (simp add: ns_tag_def)

lemma find_snoc:
  "List.find P (xs @ [y]) =
     (case List.find P xs of Some x \<Rightarrow> Some x | None \<Rightarrow> if P y then Some y else None)"
  by (induction xs) simp_all

lemma find_elem_SubElement:
  "find_elem n (SubElement e (ns_tag m) v) =
     (case find_elem n e of
        Some x \<Rightarrow> Some x
      | None \<Rightarrow> if n = m then Some (Element (ns_tag m) (Some v) []) else None)"
  by (simp add: find_elem_def SubElement_def find_snoc ns_tag_eq eq_commute)

lemma find_set_first_text:
  "List.find (\<lambda>c. tag c = t') (set_first_text t v cs) =
     (if t' = t
      then map_option (\<lambda>c. Element (tag c) (Some v) (children c)) (List.find (\<lambda>c. tag c = t) cs)
      else List.find (\<lambda>c. tag c = t') cs)"
  by (induction cs) auto

lemma find_elem_set_found_text:
  "find_elem n (set_found_text m v e) =
     (if n = m
      then map_option (\<lambda>c. Element (tag c) (Some v) (children c)) (find_elem n e)
      else find_elem n e)"
  by (simp add: find_elem_def set_found_text_def find_set_first_text ns_tag_eq)

lemma find_lastmod_update_lastmod:
  "update_lastmod path d src u st = (u', st') \<Longrightarrow>
     map_option etext (find_elem ''lastmod'' u') = Some (Some d)"
  by (auto simp: update_lastmod_def find_elem_SubElement find_elem_set_found_text Let_def
      split: option.splits if_splits)

lemma find_other_update_priority:
  "update_priority path u st = (u', st') \<Longrightarrow> n \<noteq> ''priority'' \<Longrightarrow>
     find_elem n u' = find_elem n u"
  by (auto simp: update_priority_def find_elem_SubElement find_elem_set_found_text
      split: option.splits)

lemma find_other_update_changefreq:
  "update_changefreq path u st = (u', st') \<Longrightarrow> n \<noteq> ''changefreq'' \<Longrightarrow>
     find_elem n u' = find_elem n u"
  by (auto simp: update_changefreq_def find_elem_SubElement find_elem_set_found_text
      split: option.splits)

lemma update_fields_lastmod:
  assumes "ROUTE_TO_FILE path = Some tf" "tf \<noteq> []"
    and "resolve_lastmod env fs tf st = Inr (d, src, st0)"
  shows "\<exists>u' st'. update_fields env fs path url st = (Inr u', st')
           \<and> map_option etext (find_elem ''lastmod'' u') = Some (Some d)"
proof -
  obtain u1 st1 where a: "update_lastmod path d src url st0 = (u1, st1)" by force
  obtain u2 st2 where b: "update_priority path u1 st1 = (u2, st2)" by force
  obtain u3 st3 where c: "update_changefreq path u2 st2 = (u3, st3)" by force
  have "find_elem ''lastmod'' u3 = find_elem ''lastmod'' u1"
    using find_other_update_priority [OF b, of "''lastmod''"]
      find_other_update_changefreq [OF c, of "''lastmod''"] by simp
  then have "map_option etext (find_elem ''lastmod'' u3) = Some (Some d)"
    using find_lastmod_update_lastmod [OF a] by simp
  moreover have "update_fields env fs path url st = (Inr u3, st3)"
    using assms a b c by (simp add: update_fields_def)
  ultimately show ?thesis by blast
qed

lemma resolve_lastmod_untracked:
  assumes "get_git_lastmod env (path_join (project_root env) tf) = Inr (None, Some False)"
  shows "resolve_lastmod env False tf st =
           file_date env (path_join (project_root env) tf) ''filesystem (not in git)''
             (print (NotTrackedInGit tf) st)"
  using assms by (simp add: resolve_lastmod_def)

text \<open>What holds of the fallback for a file whose modification time converts to a date
  with a four-digit year: in version-control mode, for a mapped file that git does not
  know but that exists on disk with modification time \<open>T\<close>, the resolved date is the
  date of \<open>T\<close> in the shape \<open>YYYY-MM-DD\<close>, the source tag is \<open>filesystem (not in git)\<close>, and
  the entry's \<open>lastmod\<close> holds that date afterwards.\<close>

lemma filesystem_fallback_in_range:
  assumes "get_git_lastmod env (path_join (project_root env) tf) = Inr (None, Some False)"
    and "path_exists env (path_join (project_root env) tf)"
    and "getmtime env (path_join (project_root env) tf) = Some T"
    and "fromtimestamp env T = Inr d" "1000 \<le> year d"
    and "ROUTE_TO_FILE path = Some tf" "tf \<noteq> []"
  shows "is_ymd (strftime_ymd d)"
    and "resolve_lastmod env False tf st =
           Inr (strftime_ymd d, ''filesystem (not in git)'', print (NotTrackedInGit tf) st)"
    and "\<exists>u' st'. update_fields env False path url st = (Inr u', st')
           \<and> map_option etext (find_elem ''lastmod'' u') = Some (Some (strftime_ymd d))"
proof -
  show "is_ymd (strftime_ymd d)" using assms(5) by (rule is_ymd_strftime)
  have "get_file_lastmod env (path_join (project_root env) tf) = Inr (strftime_ymd d)"
    using assms(2-4) by (simp add: get_file_lastmod_def)
  then show r: "resolve_lastmod env False tf st =
           Inr (strftime_ymd d, ''filesystem (not in git)'', print (NotTrackedInGit tf) st)"
    using resolve_lastmod_untracked [OF assms(1)] by (simp add: file_date_def)
  show "\<exists>u' st'. update_fields env False path url st = (Inr u', st')
           \<and> map_option etext (find_elem ''lastmod'' u') = Some (Some (strftime_ymd d))"
    using assms(6,7) r by (rule update_fields_lastmod)
qed

lemma mtime_paths:
  "sitemap_path (mtime_env r) = ''/srv/site/seo/sitemap.xml''"
  "path_join (project_root (mtime_env r)) ''templates/index.html''
     = ''/srv/site/templates/index.html''"
  by (simp_all add: sitemap_path_def path_join_def mtime_env_def scenario_env_def)

lemma mtime_file:
  "path_exists (mtime_env r) ''/srv/site/templates/index.html''"
  "getmtime (mtime_env r) ''/srv/site/templates/index.html'' = Some 1736931600"
  "fromtimestamp (mtime_env r) t = r"
  "now (mtime_env r) = \<lparr>year = 2026, month = 11, day = 4\<rparr>"
  by (simp_all add: mtime_env_def scenario_env_def)

lemma mtime_get_file_lastmod:
  "get_file_lastmod (mtime_env r) ''/srv/site/templates/index.html'' =
     (case r of
        Inr d \<Rightarrow> Inr (strftime_ymd d)
      | Inl LocaltimeFailed \<Rightarrow> Inr ''2026-11-04''
      | Inl YearOutOfRange \<Rightarrow> Inl ValueError
      | Inl TimestampOutOfRange \<Rightarrow> Inl OverflowError)"
  by (simp add: get_file_lastmod_def mtime_file strftime_ymd_def year_digits_def digit_def
      split: sum.split conversion_error.split)

lemma scenario_extract: "extract_path ''https://yourdomainname.com/'' = Inr (Some ''/'')"
  by (simp add: extract_path_def py_strip_def isspace_def domain_def py_split_def)

lemma mtime_missing:
  "get_file_lastmod (mtime_env r) ''/srv/site/templates/missing.html'' = Inr ''2026-11-04''"
  by (simp add: get_file_lastmod_def mtime_env_def scenario_env_def strftime_ymd_def
      year_digits_def digit_def)

lemma mtime_run:
  assumes "get_file_lastmod (mtime_env r) ''/srv/site/templates/index.html'' = Inl e"
    and "files w ''/srv/site/seo/sitemap.xml'' = Some scenario_content"
  shows "update_sitemap (mtime_env r) True w = (Inl e, w)"
proof -
  have x: "xml_parse (mtime_env r) scenario_content = Some scenario_root"
    by (simp add: mtime_env_def scenario_env_def)
  have "resolve_lastmod (mtime_env r) True ''templates/index.html'' st = Inl (e, st)" for st
    using assms(1) by (simp add: resolve_lastmod_def mtime_paths file_date_def)
  then have "update_entry (mtime_env r) True
     (Element (ns_tag ''url'') (Some ''\<newline>        '')
        [Element (ns_tag ''loc'') (Some ''https://yourdomainname.com/'') []])
     \<lparr>updated_count = 0, printed = []\<rparr> = (Inl e, \<lparr>updated_count = 0, printed = []\<rparr>)"
    by (simp add: update_entry_def find_elem_def scenario_extract update_fields_def
        ROUTE_TO_FILE_def dict_of_def)
  then have "update_entries (mtime_env r) True (children scenario_root)
      \<lparr>updated_count = 0, printed = []\<rparr> = (Inl e, \<lparr>updated_count = 0, printed = []\<rparr>)"
    by (simp add: scenario_root_def)
  then show ?thesis using assms(2) x by (simp add: update_sitemap_def mtime_paths)
qed

text \<open>
  Claim C5 at a template file whose modification time does not convert to a date with a
  four-digit year. When \<open>datetime.fromtimestamp\<close> raises ValueError (a time past the year
  9999) or OverflowError, the exception leaves \<open>get_file_lastmod\<close>, whose handler catches
  OSError only, and a run in
  file-system mode ends with it and exit status 1 without touching the sitemap. When
  the time lies in the year 999, the function returns \<open>999-01-01\<close>, which has not the
  shape \<open>YYYY-MM-DD\<close>. The other outcomes are as the claim says: the date of the
  modification time (\<open>2025-01-15\<close>) when it converts, the current date (\<open>2026-11-04\<close>) when
  the conversion raises OSError or the file does not exist.
\<close>

theorem unconvertible_mtime_escapes:
  "get_file_lastmod (mtime_env (Inl YearOutOfRange)) ''/srv/site/templates/index.html''
     = Inl ValueError
   \<and> get_file_lastmod (mtime_env (Inl TimestampOutOfRange)) ''/srv/site/templates/index.html''
     = Inl OverflowError
   \<and> update_sitemap (mtime_env (Inl YearOutOfRange)) True scenario_world
     = (Inl ValueError, scenario_world)
   \<and> fst (main (mtime_env (Inl YearOutOfRange)) True scenario_world) = 1
   \<and> get_file_lastmod (mtime_env (Inr \<lparr>year = 999, month = 1, day = 1\<rparr>))
        ''/srv/site/templates/index.html'' = Inr ''999-01-01''
   \<and> \<not> is_ymd ''999-01-01''
   \<and> get_file_lastmod (mtime_env (Inr \<lparr>year = 2025, month = 1, day = 15\<rparr>))
        ''/srv/site/templates/index.html'' = Inr ''2025-01-15''
   \<and> is_ymd ''2025-01-15''
   \<and> get_file_lastmod (mtime_env (Inl LocaltimeFailed)) ''/srv/site/templates/index.html''
     = Inr ''2026-11-04''
   \<and> get_file_lastmod (mtime_env (Inl YearOutOfRange)) ''/srv/site/templates/missing.html''
     = Inr ''2026-11-04''"
proof -
  have g: "get_file_lastmod (mtime_env (Inl YearOutOfRange)) ''/srv/site/templates/index.html''
             = Inl ValueError"
    by (simp add: mtime_get_file_lastmod)
  have f: "files w ''/srv/site/seo/sitemap.xml'' = Some scenario_content"
    if "files w = files scenario_world" for w
    using that by (simp add: scenario_world_def)
  have u: "update_sitemap (mtime_env (Inl YearOutOfRange)) True w = (Inl ValueError, w)"
    if "files w = files scenario_world" for w
    using g f [OF that] by (rule mtime_run)
  have m: "fst (main (mtime_env (Inl YearOutOfRange)) True scenario_world) = 1"
    by (simp add: main_def u)
  have y: "\<not> is_ymd ''999-01-01''" "is_ymd ''2025-01-15''"
    by (simp_all add: is_ymd_def is_digit_def)
  show ?thesis
    using u [of scenario_world] m y
    by (simp add: mtime_get_file_lastmod mtime_missing strftime_ymd_def year_digits_def
        digit_def)
qed

subsection \<open>Path extraction\<close>

lemma py_in_prefix: "sub \<noteq> [] \<Longrightarrow> py_in sub (sub @ ys)"
  by (cases sub) simp_all

lemma py_in_append: "sub \<noteq> [] \<Longrightarrow> py_in sub (xs @ sub @ ys)"
  by (induction xs) (simp_all add: py_in_prefix)

lemma split_from_first:
  assumes "sep \<noteq> []" "\<not> py_in sep (xs @ butlast sep)"
  shows "split_from sep cur (xs @ sep @ ys) = (rev cur @ xs) # split_from sep [] ys"
  using assms(2)
proof (induction xs arbitrary: cur)
  case Nil
  obtain c cs where s: "sep @ ys = c # cs" using assms(1) by (cases sep) auto
  have p: "prefix sep (c # cs)" using s by (metis prefixI)
  have d: "drop (length sep) (c # cs) = ys" using s by (metis append_eq_conv_conj)
  have "split_from sep cur (sep @ ys) = split_from sep cur (c # cs)" by (simp only: s)
  also have "\<dots> = rev cur # split_from sep [] (drop (length sep) (c # cs))"
    using assms(1) p by simp
  finally show ?case by (simp add: d)
next
  case (Cons x xs)
  have np: "\<not> prefix sep (x # xs @ sep @ ys)"
  proof
    assume p: "prefix sep (x # xs @ sep @ ys)"
    have q: "prefix ((x # xs) @ butlast sep) (x # xs @ sep @ ys)"
      by (metis append.assoc append_Cons append_butlast_last_id assms(1) prefix_def)
    have "length sep \<le> length ((x # xs) @ butlast sep)" by simp
    with p q have "prefix sep ((x # xs) @ butlast sep)"
      by (metis prefix_length_prefix)
    with Cons.prems show False by simp
  qed
  have "\<not> py_in sep (xs @ butlast sep)" using Cons.prems by simp
  then have "split_from sep (x # cur) (xs @ sep @ ys) = (rev (x # cur) @ xs) # split_from sep [] ys"
    by (rule Cons.IH)
  with np show ?case by simp
qed

lemma py_split_first:
  "sep \<noteq> [] \<Longrightarrow> \<not> py_in sep (xs @ butlast sep) \<Longrightarrow>
     py_split sep (xs @ sep @ ys) = xs # py_split sep ys"
  by (simp add: py_split_def split_from_first)

lemma split_from_not_Nil: "split_from sep cur s \<noteq> []"
  by (induction sep cur s rule: split_from.induct) auto

lemma extract_path_first:
  assumes "py_strip t = xs @ domain @ ys" "\<not> py_in domain (xs @ butlast domain)"
  shows "extract_path t =
           Inr (Some (let p = hd (py_split domain ys) in if p = [] then ''/'' else p))"
proof -
  have d: "domain \<noteq> []" by (simp add: domain_def)
  obtain p ps where ps: "py_split domain ys = p # ps"
    using split_from_not_Nil [of domain "[]" ys] by (cases "py_split domain ys") (auto simp: py_split_def)
  have "py_split domain (py_strip t) = xs # p # ps"
    using assms py_split_first [OF d assms(2), of ys] ps by simp
  moreover have "py_in domain (py_strip t)" using assms(1) d by (simp add: py_in_append)
  ultimately show ?thesis using ps by (simp add: extract_path_def)
qed

lemma py_split_Nil: "py_split sep [] = [[]]"
  by (simp add: py_split_def)

lemma py_split_slash: "py_split domain ''/'' = [''/'']"
  by (simp add: py_split_def domain_def)

text \<open>
  Claim C10. When the stripped \<open>loc\<close> text ends with the domain and the domain does not
  occur in it before (so nothing follows the first occurrence of the domain), the
  extracted path is \<open>/\<close>, the same as for the text with a trailing slash; the entry is
  then processed as the root route, whose file, priority and change frequency are those
  of \<open>/\<close> in the three tables.
\<close>

theorem bare_domain_is_root:
  "(py_strip t = xs @ domain \<longrightarrow> \<not> py_in domain (xs @ butlast domain)
      \<longrightarrow> py_strip t' = xs @ domain @ ''/''
      \<longrightarrow> find_elem ''loc'' url_elem = Some (Element lt (Some t) lc)
      \<longrightarrow> extract_path t = Inr (Some ''/'')
          \<and> extract_path t' = Inr (Some ''/'')
          \<and> update_entry env use_filesystem url_elem st
              = update_fields env use_filesystem ''/'' url_elem st)
   \<and> ROUTE_TO_FILE ''/'' = Some ''templates/index.html''
   \<and> PRIORITY_MAP ''/'' = Some ''1.0''
   \<and> CHANGEFREQ_MAP ''/'' = Some ''weekly''"
proof (intro conjI impI)
  assume a: "py_strip t = xs @ domain" "\<not> py_in domain (xs @ butlast domain)"
  show e: "extract_path t = Inr (Some ''/'')"
    using extract_path_first [of t xs "[]"] a by (simp add: py_split_Nil)
  assume "py_strip t' = xs @ domain @ ''/''"
  then show "extract_path t' = Inr (Some ''/'')"
    using extract_path_first [of t' xs "''/''"] a(2) by (simp add: py_split_slash)
  assume "find_elem ''loc'' url_elem = Some (Element lt (Some t) lc)"
  then show "update_entry env use_filesystem url_elem st
              = update_fields env use_filesystem ''/'' url_elem st"
    using e by (simp add: update_entry_def)
next
  show "ROUTE_TO_FILE ''/'' = Some ''templates/index.html''"
    by (simp add: ROUTE_TO_FILE_def dict_of_def)
  show "PRIORITY_MAP ''/'' = Some ''1.0''" by (simp add: PRIORITY_MAP_def dict_of_def)
  show "CHANGEFREQ_MAP ''/'' = Some ''weekly''" by (simp add: CHANGEFREQ_MAP_def dict_of_def)
qed

theorem bare_domain_is_root_witness:
  "extract_path ''https://yourdomainname.com'' = Inr (Some ''/'')
   \<and> extract_path ''https://yourdomainname.com/'' = Inr (Some ''/'')
   \<and> update_entry scenario_env False
        (Element (ns_tag ''url'') None
           [Element (ns_tag ''loc'') (Some ''https://yourdomainname.com'') []])
        \<lparr>updated_count = 0, printed = []\<rparr>
     = update_fields scenario_env False ''/''
        (Element (ns_tag ''url'') None
           [Element (ns_tag ''loc'') (Some ''https://yourdomainname.com'') []])
        \<lparr>updated_count = 0, printed = []\<rparr>"
  using bare_domain_is_root [of "''https://yourdomainname.com''" "''https://''"
      "''https://yourdomainname.com/''"
      "Element (ns_tag ''url'') None
         [Element (ns_tag ''loc'') (Some ''https://yourdomainname.com'') []]"
      "ns_tag ''loc''" "[]" scenario_env False "\<lparr>updated_count = 0, printed = []\<rparr>"]
  by (simp add: py_strip_def isspace_def domain_def find_elem_def)

subsection \<open>Skipped entries\<close>

text \<open>
  Claim C8. An entry whose stripped \<open>loc\<close> text does not contain the domain is returned
  as it is, with the counter and the output unchanged. An entry whose extracted path has
  no file in the route table is returned as it is as well; the counter is unchanged and
  exactly one warning, naming the path, is printed.
\<close>

theorem skipped_entries_unchanged:
  "(find_elem ''loc'' url_elem = Some (Element lt (Some t) lc)
      \<longrightarrow> \<not> py_in domain (py_strip t)
      \<longrightarrow> update_entry env use_filesystem url_elem st = (Inr url_elem, st))
   \<and> (find_elem ''loc'' url_elem = Some (Element lt (Some t) lc)
      \<longrightarrow> extract_path t = Inr (Some path) \<longrightarrow> ROUTE_TO_FILE path = None
      \<longrightarrow> update_entry env use_filesystem url_elem st
          = (Inr url_elem, st\<lparr>printed := printed st @ [NoTemplateMapping path]\<rparr>))"
  by (simp add: update_entry_def extract_path_def update_fields_def print_def)

theorem skipped_entries_unchanged_witness:
  "update_entry scenario_env False
     (Element (ns_tag ''url'') None
        [Element (ns_tag ''loc'') (Some ''https://example.org/'') [],
         Element (ns_tag ''lastmod'') (Some ''2020-02-02'') []])
     \<lparr>updated_count = 5, printed = []\<rparr>
   = (Inr (Element (ns_tag ''url'') None
        [Element (ns_tag ''loc'') (Some ''https://example.org/'') [],
         Element (ns_tag ''lastmod'') (Some ''2020-02-02'') []]),
      \<lparr>updated_count = 5, printed = []\<rparr>)
   \<and> update_entry scenario_env False
     (Element (ns_tag ''url'') None
        [Element (ns_tag ''loc'') (Some ''https://yourdomainname.com/about'') [],
         Element (ns_tag ''lastmod'') (Some ''2020-02-02'') []])
     \<lparr>updated_count = 5, printed = []\<rparr>
   = (Inr (Element (ns_tag ''url'') None
        [Element (ns_tag ''loc'') (Some ''https://yourdomainname.com/about'') [],
         Element (ns_tag ''lastmod'') (Some ''2020-02-02'') []]),
      \<lparr>updated_count = 5, printed = [NoTemplateMapping ''/about'']\<rparr>)"
  using skipped_entries_unchanged [where url_elem =
      "Element (ns_tag ''url'') None
        [Element (ns_tag ''loc'') (Some ''https://example.org/'') [],
         Element (ns_tag ''lastmod'') (Some ''2020-02-02'') []]"
      and lt = "ns_tag ''loc''" and t = "''https://example.org/''" and lc = "[]"
      and env = scenario_env and use_filesystem = False and path = "''/''"
      and st = "\<lparr>updated_count = 5, printed = []\<rparr>"]
    skipped_entries_unchanged [where url_elem =
      "Element (ns_tag ''url'') None
        [Element (ns_tag ''loc'') (Some ''https://yourdomainname.com/about'') [],
         Element (ns_tag ''lastmod'') (Some ''2020-02-02'') []]"
      and lt = "ns_tag ''loc''" and t = "''https://yourdomainname.com/about''" and lc = "[]"
      and env = scenario_env and use_filesystem = False and path = "''/about''"
      and st = "\<lparr>updated_count = 5, printed = []\<rparr>"]
  by (simp add: find_elem_def py_strip_def isspace_def domain_def extract_path_def py_split_def
      ROUTE_TO_FILE_def dict_of_def)

subsection \<open>The update counter\<close>

lemma resolve_lastmod_count:
  "resolve_lastmod env fs tf st = Inr (d, src, st0) \<Longrightarrow> updated_count st0 = updated_count st"
  by (auto simp: resolve_lastmod_def file_date_def print_def Let_def
      split: sum.splits option.splits if_splits)

lemma find_other_update_lastmod:
  "update_lastmod path d src u st = (u', st') \<Longrightarrow> n \<noteq> ''lastmod'' \<Longrightarrow>
     find_elem n u' = find_elem n u"
  by (auto simp: update_lastmod_def find_elem_SubElement find_elem_set_found_text Let_def
      split: option.splits if_splits)

lemma update_lastmod_count:
  "update_lastmod path d src u st = (u', st') \<Longrightarrow>
     updated_count st' = updated_count st
       + (case find_elem ''lastmod'' u of None \<Rightarrow> 1 | Some e \<Rightarrow> if etext e = Some d then 0 else 1)"
  by (auto simp: update_lastmod_def Let_def count_up_def print_def split: option.splits if_splits)

lemma update_priority_count:
  "update_priority path u st = (u', st') \<Longrightarrow>
     updated_count st' = updated_count st
       + (if find_elem ''priority'' u = None \<and> PRIORITY_MAP path \<noteq> None then 1 else 0)"
  by (auto simp: update_priority_def count_up_def split: option.splits)

lemma update_changefreq_count:
  "update_changefreq path u st = (u', st') \<Longrightarrow>
     updated_count st' = updated_count st
       + (if find_elem ''changefreq'' u = None \<and> CHANGEFREQ_MAP path \<noteq> None then 1 else 0)"
  by (auto simp: update_changefreq_def count_up_def split: option.splits)

lemma update_fields_count:
  assumes "ROUTE_TO_FILE path = Some tf" "tf \<noteq> []"
    and "resolve_lastmod env fs tf st = Inr (d, src, st0)"
  shows "\<exists>u' st'. update_fields env fs path url st = (Inr u', st')
           \<and> updated_count st' = updated_count st
               + (case find_elem ''lastmod'' url of
                    None \<Rightarrow> 1 | Some e \<Rightarrow> if etext e = Some d then 0 else 1)
               + (if find_elem ''priority'' url = None \<and> PRIORITY_MAP path \<noteq> None
                  then 1 else 0)
               + (if find_elem ''changefreq'' url = None \<and> CHANGEFREQ_MAP path \<noteq> None
                  then 1 else 0)"
proof -
  obtain u1 st1 where a: "update_lastmod path d src url st0 = (u1, st1)" by force
  obtain u2 st2 where b: "update_priority path u1 st1 = (u2, st2)" by force
  obtain u3 st3 where c: "update_changefreq path u2 st2 = (u3, st3)" by force
  have p: "find_elem ''priority'' u1 = find_elem ''priority'' url"
    using find_other_update_lastmod [OF a, of "''priority''"] by simp
  have "find_elem ''changefreq'' u2 = find_elem ''changefreq'' u1"
    using find_other_update_priority [OF b, of "''changefreq''"] by simp
  then have q: "find_elem ''changefreq'' u2 = find_elem ''changefreq'' url"
    using find_other_update_lastmod [OF a, of "''changefreq''"] by simp
  have "updated_count st3 = updated_count st
               + (case find_elem ''lastmod'' url of
                    None \<Rightarrow> 1 | Some e \<Rightarrow> if etext e = Some d then 0 else 1)
               + (if find_elem ''priority'' url = None \<and> PRIORITY_MAP path \<noteq> None
                  then 1 else 0)
               + (if find_elem ''changefreq'' url = None \<and> CHANGEFREQ_MAP path \<noteq> None
                  then 1 else 0)"
    using update_lastmod_count [OF a] update_priority_count [OF b]
      update_changefreq_count [OF c] resolve_lastmod_count [OF assms(3)] p q
    by simp
  moreover have "update_fields env fs path url st = (Inr u3, st3)"
    using assms a b c by (simp add: update_fields_def)
  ultimately show ?thesis by blast
qed

lemma scenario_sitemap_path: "sitemap_path scenario_env = ''/srv/site/seo/sitemap.xml''"
  by (simp add: sitemap_path_def path_join_def scenario_env_def)

lemma scenario_tmp_path: "tmp_path scenario_env = ''/srv/site/seo/tmpk3x9.xml''"
  by (simp add: tmp_path_def path_join_def scenario_env_def)

lemma scenario_resolve:
  "resolve_lastmod scenario_env False ''templates/index.html'' st = Inr (''2025-01-15'', ''git'', st)"
  by (simp add: resolve_lastmod_def path_join_def scenario_env_def get_git_lastmod_def
      py_strip_def isspace_def py_split_ws_def)

lemma scenario_entry:
  "update_entry scenario_env False
     (Element (ns_tag ''url'') (Some ''\<newline>        '')
        [Element (ns_tag ''loc'') (Some ''https://yourdomainname.com/'') []])
     \<lparr>updated_count = 0, printed = []\<rparr>
   = (Inr scenario_url, \<lparr>updated_count = 3, printed = [AddedLastmod ''/'' ''2025-01-15'' ''git'']\<rparr>)"
  by (simp add: update_entry_def find_elem_Cons find_elem_def ns_tag_eq scenario_extract
      update_fields_def ROUTE_TO_FILE_def PRIORITY_MAP_def CHANGEFREQ_MAP_def dict_of_def
      scenario_resolve update_lastmod_def update_priority_def update_changefreq_def
      SubElement_def count_up_def print_def scenario_url_def)

lemma scenario_entries:
  "update_entries scenario_env False (children scenario_root) \<lparr>updated_count = 0, printed = []\<rparr>
   = (Inr [scenario_url], \<lparr>updated_count = 3, printed = [AddedLastmod ''/'' ''2025-01-15'' ''git'']\<rparr>)"
  by (simp add: scenario_root_def scenario_entry)

lemma scenario_writes:
  "concat (sitemap_writes (Element (tag scenario_root) (etext scenario_root) [scenario_url]))
     = scenario_expected"
  by (simp add: sitemap_writes_def written_blocks_def findall_def List.map_filter_simps
      scenario_url_def url_block_def find_elem_Cons find_elem_def ns_tag_eq optional_text_def
      saxutils_escape_Cons saxutils_escape_Nil escape_char_def block_writes_def optional_line_def
      xml_declaration_def urlset_open_def scenario_expected_def)

lemma scenario_run:
  "update_sitemap scenario_env False scenario_world =
     persist scenario_env
       (sitemap_writes (Element (tag scenario_root) (etext scenario_root) [scenario_url])) 3
       (scenario_world\<lparr>stdout := [AddedLastmod ''/'' ''2025-01-15'' ''git'']\<rparr>)"
proof -
  have "files scenario_world ''/srv/site/seo/sitemap.xml'' = Some scenario_content"
    by (simp add: scenario_world_def)
  moreover have "xml_parse scenario_env scenario_content = Some scenario_root"
    by (simp add: scenario_env_def)
  moreover have "stdout scenario_world = []"
    by (simp add: scenario_world_def)
  ultimately show ?thesis
    by (simp add: update_sitemap_def scenario_sitemap_path scenario_entries)
qed

text \<open>
  Claim C3. For an entry that is processed (its path has a file in the route table and
  the date is resolved), the counter grows by one when \<open>lastmod\<close> is created or its old
  text differs from the new date, by one when \<open>priority\<close> is created, and by one when
  \<open>changefreq\<close> is created; overwriting an existing \<open>priority\<close> or \<open>changefreq\<close> adds
  nothing. In the scenario of the specification the entry gains \<open>lastmod\<close> 2025-01-15,
  \<open>priority\<close> 1.0 and \<open>changefreq\<close> weekly, the counter is 3, and the run writes
  \<open>scenario_expected\<close> to the sitemap file.
\<close>

theorem update_counter:
  "(ROUTE_TO_FILE path = Some tf \<longrightarrow> tf \<noteq> []
      \<longrightarrow> resolve_lastmod env use_filesystem tf st = Inr (d, src, st0)
      \<longrightarrow> (\<exists>u' st'. update_fields env use_filesystem path url_elem st = (Inr u', st')
            \<and> updated_count st' = updated_count st
               + (case find_elem ''lastmod'' url_elem of
                    None \<Rightarrow> 1 | Some e \<Rightarrow> if etext e = Some d then 0 else 1)
               + (if find_elem ''priority'' url_elem = None \<and> PRIORITY_MAP path \<noteq> None
                  then 1 else 0)
               + (if find_elem ''changefreq'' url_elem = None \<and> CHANGEFREQ_MAP path \<noteq> None
                  then 1 else 0)))
   \<and> update_entries scenario_env False (children scenario_root)
         \<lparr>updated_count = 0, printed = []\<rparr>
       = (Inr [scenario_url],
          \<lparr>updated_count = 3, printed = [AddedLastmod ''/'' ''2025-01-15'' ''git'']\<rparr>)
   \<and> fst (update_sitemap scenario_env False scenario_world) = Inr ()
   \<and> files (snd (update_sitemap scenario_env False scenario_world))
         ''/srv/site/seo/sitemap.xml'' = Some scenario_expected
   \<and> stdout (snd (update_sitemap scenario_env False scenario_world))
       = [AddedLastmod ''/'' ''2025-01-15'' ''git'', UpdatedSuccessfully 3,
          Location ''/srv/site/seo/sitemap.xml'']"
proof (intro conjI impI)
  assume "ROUTE_TO_FILE path = Some tf" "tf \<noteq> []"
    "resolve_lastmod env use_filesystem tf st = Inr (d, src, st0)"
  then show "\<exists>u' st'. update_fields env use_filesystem path url_elem st = (Inr u', st')
            \<and> updated_count st' = updated_count st
               + (case find_elem ''lastmod'' url_elem of
                    None \<Rightarrow> 1 | Some e \<Rightarrow> if etext e = Some d then 0 else 1)
               + (if find_elem ''priority'' url_elem = None \<and> PRIORITY_MAP path \<noteq> None
                  then 1 else 0)
               + (if find_elem ''changefreq'' url_elem = None \<and> CHANGEFREQ_MAP path \<noteq> None
                  then 1 else 0)"
    by (rule update_fields_count)
next
  show "update_entries scenario_env False (children scenario_root)
         \<lparr>updated_count = 0, printed = []\<rparr>
       = (Inr [scenario_url],
          \<lparr>updated_count = 3, printed = [AddedLastmod ''/'' ''2025-01-15'' ''git'']\<rparr>)"
    by (rule scenario_entries)
next
  have m: "move_ok scenario_env" "writes_allowed scenario_env = None"
    by (simp_all add: scenario_env_def)
  have p: "persist scenario_env
       (sitemap_writes (Element (tag scenario_root) (etext scenario_root) [scenario_url])) 3
       (scenario_world\<lparr>stdout := [AddedLastmod ''/'' ''2025-01-15'' ''git'']\<rparr>)
     = (Inr (),
        \<lparr>files = ((files scenario_world)(''/srv/site/seo/tmpk3x9.xml'' := None))
                   (''/srv/site/seo/sitemap.xml'' \<mapsto> scenario_expected),
         stdout = [AddedLastmod ''/'' ''2025-01-15'' ''git'', UpdatedSuccessfully 3,
                   Location ''/srv/site/seo/sitemap.xml'']\<rparr>)"
    by (simp add: persist_def persist_move_def m scenario_tmp_path scenario_sitemap_path
        scenario_writes)
       (simp add: scenario_world_def)
  show "fst (update_sitemap scenario_env False scenario_world) = Inr ()"
    by (simp add: scenario_run p)
  show "files (snd (update_sitemap scenario_env False scenario_world))
         ''/srv/site/seo/sitemap.xml'' = Some scenario_expected"
    by (simp add: scenario_run p)
  show "stdout (snd (update_sitemap scenario_env False scenario_world))
       = [AddedLastmod ''/'' ''2025-01-15'' ''git'', UpdatedSuccessfully 3,
          Location ''/srv/site/seo/sitemap.xml'']"
    by (simp add: scenario_run p)
qed

theorem update_counter_witness:
  "\<exists>u' st'.
      update_fields scenario_env False ''/''
        (Element (ns_tag ''url'') None
           [Element (ns_tag ''loc'') (Some ''https://yourdomainname.com/'') [],
            Element (ns_tag ''lastmod'') (Some ''2024-12-01'') [],
            Element (ns_tag ''priority'') (Some ''0.5'') []])
        \<lparr>updated_count = 0, printed = []\<rparr> = (Inr u', st')
      \<and> updated_count st' = 2"
  using update_counter [where path = "''/''" and tf = "''templates/index.html''"
      and env = scenario_env and use_filesystem = False and d = "''2025-01-15''"
      and src = "''git''" and st = "\<lparr>updated_count = 0, printed = []\<rparr>"
      and ?st0.0 = "\<lparr>updated_count = 0, printed = []\<rparr>"
      and url_elem = "Element (ns_tag ''url'') None
           [Element (ns_tag ''loc'') (Some ''https://yourdomainname.com/'') [],
            Element (ns_tag ''lastmod'') (Some ''2024-12-01'') [],
            Element (ns_tag ''priority'') (Some ''0.5'') []]"]
  by (simp add: scenario_resolve ROUTE_TO_FILE_def PRIORITY_MAP_def CHANGEFREQ_MAP_def
      dict_of_def find_elem_def ns_tag_eq numeral_2_eq_2)

subsection \<open>Exceptions of the first loop\<close>

lemma split_from_two:
  "sep \<noteq> [] \<Longrightarrow> py_in sep s \<Longrightarrow> \<exists>a b r. split_from sep cur s = a # b # r"
proof (induction s arbitrary: cur)
  case Nil
  then show ?case by simp
next
  case (Cons c cs)
  show ?case
  proof (cases "prefix sep (c # cs)")
    case True
    obtain b r where "split_from sep [] (drop (length sep) (c # cs)) = b # r"
      using split_from_not_Nil [of sep "[]" "drop (length sep) (c # cs)"]
      by (cases "split_from sep [] (drop (length sep) (c # cs))") auto
    with True Cons.prems(1) show ?thesis by simp
  next
    case False
    then have "py_in sep cs" using Cons.prems(2) by simp
    then obtain a b r where "split_from sep (c # cur) cs = a # b # r"
      using Cons.IH [OF Cons.prems(1)] by blast
    with False show ?thesis by simp
  qed
qed

lemma extract_path_no_exc: "extract_path t \<noteq> Inl e"
proof (cases "py_in domain (py_strip t)")
  case True
  have "domain \<noteq> []" by (simp add: domain_def)
  then obtain a b r where "py_split domain (py_strip t) = a # b # r"
    using split_from_two [OF _ True, of "[]"] by (auto simp: py_split_def)
  with True show ?thesis by (simp add: extract_path_def)
next
  case False
  then show ?thesis by (simp add: extract_path_def)
qed

lemma get_git_lastmod_no_exc: "get_git_lastmod env p \<noteq> Inl e"
  by (simp add: get_git_lastmod_eq split: git_outcome.split list.split)

lemma get_file_lastmod_exc:
  "get_file_lastmod env p = Inl e \<Longrightarrow>
     (e = ValueError \<and> (\<exists>t. fromtimestamp env t = Inl YearOutOfRange))
     \<or> (e = OverflowError \<and> (\<exists>t. fromtimestamp env t = Inl TimestampOutOfRange))"
  by (auto simp: get_file_lastmod_def
      split: if_splits option.splits sum.splits conversion_error.splits)

lemma resolve_lastmod_exc:
  "resolve_lastmod env fs tf st = Inl (e, st') \<Longrightarrow>
     (e = ValueError \<and> (\<exists>t. fromtimestamp env t = Inl YearOutOfRange))
     \<or> (e = OverflowError \<and> (\<exists>t. fromtimestamp env t = Inl TimestampOutOfRange))"
  using get_git_lastmod_no_exc [of env "path_join (project_root env) tf"]
  by (auto simp: resolve_lastmod_def file_date_def Let_def
      split: sum.splits option.splits if_splits prod.splits dest!: get_file_lastmod_exc)

lemma update_fields_exc:
  "update_fields env fs path u st = (Inl e, st') \<Longrightarrow>
     (e = ValueError \<and> (\<exists>t. fromtimestamp env t = Inl YearOutOfRange))
     \<or> (e = OverflowError \<and> (\<exists>t. fromtimestamp env t = Inl TimestampOutOfRange))"
proof -
  assume a: "update_fields env fs path u st = (Inl e, st')"
  then obtain tf where tf: "ROUTE_TO_FILE path = Some tf" "tf \<noteq> []"
    by (auto simp: update_fields_def split: option.splits if_splits)
  have "resolve_lastmod env fs tf st = Inl (e, st')"
    using a tf by (auto simp: update_fields_def split: sum.splits prod.splits)
  then show ?thesis by (rule resolve_lastmod_exc)
qed

lemma update_entry_exc:
  "update_entry env fs u st = (Inl e, st') \<Longrightarrow>
     e = AttributeError
     \<or> (e = ValueError \<and> (\<exists>t. fromtimestamp env t = Inl YearOutOfRange))
     \<or> (e = OverflowError \<and> (\<exists>t. fromtimestamp env t = Inl TimestampOutOfRange))"
  using extract_path_no_exc
  by (auto simp: update_entry_def split: option.splits sum.splits dest!: update_fields_exc)

lemma update_entry_Inr_loc:
  "update_entry env fs u st = (Inr u', st') \<Longrightarrow> find_elem ''loc'' u = Some l \<Longrightarrow>
     etext l \<noteq> None"
  by (auto simp: update_entry_def split: option.splits)

lemma update_entries_exc:
  "update_entries env fs cs st = (Inl e, st') \<Longrightarrow>
     e = AttributeError
     \<or> (e = ValueError \<and> (\<exists>t. fromtimestamp env t = Inl YearOutOfRange))
     \<or> (e = OverflowError \<and> (\<exists>t. fromtimestamp env t = Inl TimestampOutOfRange))"
proof (induction cs arbitrary: st st')
  case Nil
  then show ?case by simp
next
  case (Cons c cs)
  show ?case
  proof (cases "tag c = ns_tag ''url''")
    case True
    obtain r st1 where r: "update_entry env fs c st = (r, st1)" by force
    show ?thesis
    proof (cases r)
      case (Inl e1)
      then have "e1 = e" using Cons.prems True r by simp
      then show ?thesis using update_entry_exc [of env fs c st e st1] r Inl by simp
    next
      case (Inr c')
      obtain r2 st2 where r2: "update_entries env fs cs st1 = (r2, st2)" by force
      then have "r2 = Inl e" using Cons.prems True r Inr by (auto split: sum.splits)
      then show ?thesis using Cons.IH [of st1 st2] r2 by simp
    qed
  next
    case False
    obtain r2 st2 where r2: "update_entries env fs cs st = (r2, st2)" by force
    then have "r2 = Inl e" using Cons.prems False by (auto split: sum.splits)
    then show ?thesis using Cons.IH [of st st2] r2 by simp
  qed
qed

lemma update_entries_Inr_loc:
  "update_entries env fs cs st = (Inr cs', st') \<Longrightarrow> u \<in> set cs \<Longrightarrow> tag u = ns_tag ''url''
     \<Longrightarrow> find_elem ''loc'' u = Some l \<Longrightarrow> etext l \<noteq> None"
proof (induction cs arbitrary: st cs')
  case Nil
  then show ?case by simp
next
  case (Cons c cs)
  show ?case
  proof (cases "u = c")
    case True
    then obtain c' st1 where "update_entry env fs c st = (Inr c', st1)"
      using Cons.prems(1,3) by (auto split: prod.splits sum.splits)
    then show ?thesis using True Cons.prems(4) by (auto dest: update_entry_Inr_loc)
  next
    case False
    then have "u \<in> set cs" using Cons.prems(2) by simp
    moreover obtain st1 cs1 where "update_entries env fs cs st1 = (Inr cs1, st')"
      using Cons.prems(1) by (auto split: if_splits prod.splits sum.splits)
    ultimately show ?thesis using Cons.IH Cons.prems(3,4) by blast
  qed
qed

lemma update_entries_empty_loc:
  assumes "u \<in> set cs" "tag u = ns_tag ''url''" "find_elem ''loc'' u = Some l" "etext l = None"
  shows "\<exists>e st'. update_entries env fs cs st = (Inl e, st')
           \<and> (e = AttributeError
              \<or> (e = ValueError \<and> (\<exists>t. fromtimestamp env t = Inl YearOutOfRange))
              \<or> (e = OverflowError \<and> (\<exists>t. fromtimestamp env t = Inl TimestampOutOfRange)))"
proof (cases "update_entries env fs cs st")
  case (Pair res st')
  show ?thesis
  proof (cases res)
    case (Inl e)
    then show ?thesis using Pair update_entries_exc [of env fs cs st e st'] by simp
  next
    case (Inr cs')
    then show ?thesis using Pair assms update_entries_Inr_loc [of env fs cs st cs' st' u l] by simp
  qed
qed

lemma update_sitemap_empty_loc:
  assumes "files w (sitemap_path env) = Some content" "xml_parse env content = Some root"
    and "u \<in> set (findall ''url'' root)" "find_elem ''loc'' u = Some l" "etext l = None"
  shows "\<exists>e. fst (update_sitemap env fs w) = Inl e
           \<and> files (snd (update_sitemap env fs w)) = files w
           \<and> (e = AttributeError
              \<or> (e = ValueError \<and> (\<exists>t. fromtimestamp env t = Inl YearOutOfRange))
              \<or> (e = OverflowError \<and> (\<exists>t. fromtimestamp env t = Inl TimestampOutOfRange)))"
proof -
  have "u \<in> set (children root)" "tag u = ns_tag ''url''"
    using assms(3) by (simp_all add: findall_def)
  then obtain e st' where
    "update_entries env fs (children root) \<lparr>updated_count = 0, printed = []\<rparr> = (Inl e, st')"
    "e = AttributeError
       \<or> (e = ValueError \<and> (\<exists>t. fromtimestamp env t = Inl YearOutOfRange))
       \<or> (e = OverflowError \<and> (\<exists>t. fromtimestamp env t = Inl TimestampOutOfRange))"
    using update_entries_empty_loc [OF _ _ assms(4,5), where cs = "children root"
        and env = env and fs = fs] by blast
  then show ?thesis using assms(1,2) by (simp add: update_sitemap_def)
qed

lemma main_exc:
  assumes "fst (update_sitemap env fs (w\<lparr>stdout := stdout w @ [Banner (project_root env) fs]\<rparr>))
             = Inl e"
    and "e = AttributeError \<or> e = ValueError \<or> e = OverflowError"
  shows "fst (main env fs w) = 1"
    "files (snd (main env fs w))
       = files (snd (update_sitemap env fs
           (w\<lparr>stdout := stdout w @ [Banner (project_root env) fs]\<rparr>)))"
proof -
  obtain r w' where
    r: "update_sitemap env fs (w\<lparr>stdout := stdout w @ [Banner (project_root env) fs]\<rparr>)
          = (r, w')"
    by force
  then have "r = Inl e" using assms(1) by simp
  with r assms(2) show "fst (main env fs w) = 1"
    "files (snd (main env fs w))
       = files (snd (update_sitemap env fs
           (w\<lparr>stdout := stdout w @ [Banner (project_root env) fs]\<rparr>)))"
    by (auto simp: main_def)
qed

text \<open>
  Claim C9. When some \<open>url\<close> entry of the parsed document has a \<open>loc\<close> child without
  text, the run raises an exception in the first loop: no file is created or changed,
  and \<open>main\<close> exits with status 1, whatever the other entries are. The exception is the
  AttributeError of \<open>loc_elem.text.strip()\<close>, unless an earlier entry has already stopped
  the run with the ValueError or OverflowError of a modification time that does not
  convert to a date; where no conversion fails in these two ways it is AttributeError.
  An entry without any \<open>loc\<close> child is passed over by the first loop, with nothing
  printed and nothing counted, and the second loop writes no block for it.
\<close>

theorem empty_loc_aborts:
  "(files w (sitemap_path env) = Some content \<longrightarrow> xml_parse env content = Some root
      \<longrightarrow> u \<in> set (findall ''url'' root) \<longrightarrow> find_elem ''loc'' u = Some l
      \<longrightarrow> etext l = None
      \<longrightarrow> (fst (update_sitemap env use_filesystem w) = Inl AttributeError
           \<or> fst (update_sitemap env use_filesystem w) = Inl ValueError
           \<or> fst (update_sitemap env use_filesystem w) = Inl OverflowError)
          \<and> ((\<forall>t. fromtimestamp env t \<noteq> Inl YearOutOfRange
                   \<and> fromtimestamp env t \<noteq> Inl TimestampOutOfRange)
               \<longrightarrow> fst (update_sitemap env use_filesystem w) = Inl AttributeError)
          \<and> files (snd (update_sitemap env use_filesystem w)) = files w
          \<and> fst (main env use_filesystem w) = 1
          \<and> files (snd (main env use_filesystem w)) = files w)
   \<and> (find_elem ''loc'' v = None
      \<longrightarrow> update_entry env use_filesystem v st = (Inr v, st) \<and> url_block v = None)"
proof -
  have 2: "update_entry env use_filesystem v st = (Inr v, st) \<and> url_block v = None"
    if "find_elem ''loc'' v = None"
    using that by (simp add: update_entry_def url_block_def)
  have 1: "(fst (update_sitemap env use_filesystem w) = Inl AttributeError
           \<or> fst (update_sitemap env use_filesystem w) = Inl ValueError
           \<or> fst (update_sitemap env use_filesystem w) = Inl OverflowError)
          \<and> ((\<forall>t. fromtimestamp env t \<noteq> Inl YearOutOfRange
                   \<and> fromtimestamp env t \<noteq> Inl TimestampOutOfRange)
               \<longrightarrow> fst (update_sitemap env use_filesystem w) = Inl AttributeError)
          \<and> files (snd (update_sitemap env use_filesystem w)) = files w
          \<and> fst (main env use_filesystem w) = 1
          \<and> files (snd (main env use_filesystem w)) = files w"
    if a: "files w (sitemap_path env) = Some content" "xml_parse env content = Some root"
      "u \<in> set (findall ''url'' root)" "find_elem ''loc'' u = Some l" "etext l = None"
  proof -
    obtain e where e: "fst (update_sitemap env use_filesystem w) = Inl e"
      "files (snd (update_sitemap env use_filesystem w)) = files w"
      "e = AttributeError
         \<or> (e = ValueError \<and> (\<exists>t. fromtimestamp env t = Inl YearOutOfRange))
         \<or> (e = OverflowError \<and> (\<exists>t. fromtimestamp env t = Inl TimestampOutOfRange))"
      using update_sitemap_empty_loc [OF a, of use_filesystem] by blast
    let ?w = "w\<lparr>stdout := stdout w @ [Banner (project_root env) use_filesystem]\<rparr>"
    have "files ?w (sitemap_path env) = Some content" using a(1) by simp
    then obtain e' where e': "fst (update_sitemap env use_filesystem ?w) = Inl e'"
      "e' = AttributeError \<or> e' = ValueError \<or> e' = OverflowError"
      and f': "files (snd (update_sitemap env use_filesystem ?w)) = files ?w"
      using update_sitemap_empty_loc [OF _ a(2-5), of ?w use_filesystem] by blast
    have m: "fst (main env use_filesystem w) = 1"
      "files (snd (main env use_filesystem w)) = files w"
      using main_exc [OF e'] f' by simp_all
    show ?thesis using e m by auto
  qed
  show ?thesis using 1 2 by blast
qed

theorem empty_loc_aborts_witness:
  "fst (update_sitemap
          (scenario_env\<lparr>xml_parse := \<lambda>content. Some (Element (ns_tag ''urlset'') None
             [Element (ns_tag ''url'') None
                [Element (ns_tag ''loc'') (Some ''https://yourdomainname.com/'') []],
              Element (ns_tag ''url'') None [Element (ns_tag ''loc'') None []]])\<rparr>)
          False scenario_world) = Inl AttributeError
   \<and> fst (main
          (scenario_env\<lparr>xml_parse := \<lambda>content. Some (Element (ns_tag ''urlset'') None
             [Element (ns_tag ''url'') None
                [Element (ns_tag ''loc'') (Some ''https://yourdomainname.com/'') []],
              Element (ns_tag ''url'') None [Element (ns_tag ''loc'') None []]])\<rparr>)
          False scenario_world) = 1"
  using empty_loc_aborts [where w = scenario_world and content = scenario_content
      and env = "scenario_env\<lparr>xml_parse := \<lambda>content. Some (Element (ns_tag ''urlset'') None
             [Element (ns_tag ''url'') None
                [Element (ns_tag ''loc'') (Some ''https://yourdomainname.com/'') []],
              Element (ns_tag ''url'') None [Element (ns_tag ''loc'') None []]])\<rparr>"
      and root = "Element (ns_tag ''urlset'') None
             [Element (ns_tag ''url'') None
                [Element (ns_tag ''loc'') (Some ''https://yourdomainname.com/'') []],
              Element (ns_tag ''url'') None [Element (ns_tag ''loc'') None []]]"
      and u = "Element (ns_tag ''url'') None [Element (ns_tag ''loc'') None []]"
      and l = "Element (ns_tag ''loc'') None []" and use_filesystem = False
      and v = "Element (ns_tag ''url'') None []"
      and st = "\<lparr>updated_count = 0, printed = []\<rparr>"]
  by (simp add: scenario_world_def scenario_env_def sitemap_path_def path_join_def findall_def
      find_elem_def)

subsection \<open>Persistence\<close>

lemma persist_write_failure:
  assumes "files w (tmp_path env) = None" "writes_allowed env = Some n" "n < length chunks"
  shows "persist env chunks count w
           = (Inl OSError, w\<lparr>files := (files w)(tmp_path env \<mapsto> concat (take n chunks))\<rparr>)"
  using assms by (simp add: persist_def)

lemma persist_move_failure:
  assumes "files w (tmp_path env) = None" "writes_allowed env = None" "\<not> move_ok env"
  shows "persist env chunks count w
           = (Inl FailedToReplace, w\<lparr>files := (files w)(tmp_path env := None)\<rparr>)"
  using assms by (simp add: persist_def persist_move_def)

lemma faulty_paths:
  "sitemap_path (faulty_env n ok) = ''/srv/site/seo/sitemap.xml''"
  "tmp_path (faulty_env n ok) = ''/srv/site/seo/tmpk3x9.xml''"
  by (simp_all add: sitemap_path_def tmp_path_def path_join_def faulty_env_def scenario_env_def)

lemma faulty_resolve:
  "resolve_lastmod (faulty_env n ok) False ''templates/index.html'' st
     = Inr (''2025-01-15'', ''git'', st)"
  by (simp add: resolve_lastmod_def path_join_def faulty_env_def scenario_env_def
      get_git_lastmod_def py_strip_def isspace_def py_split_ws_def)

lemma faulty_entry:
  "update_entry (faulty_env n ok) False
     (Element (ns_tag ''url'') (Some ''\<newline>        '')
        [Element (ns_tag ''loc'') (Some ''https://yourdomainname.com/'') []])
     \<lparr>updated_count = 0, printed = []\<rparr>
   = (Inr scenario_url, \<lparr>updated_count = 3, printed = [AddedLastmod ''/'' ''2025-01-15'' ''git'']\<rparr>)"
  by (simp add: update_entry_def find_elem_Cons find_elem_def ns_tag_eq scenario_extract
      update_fields_def ROUTE_TO_FILE_def PRIORITY_MAP_def CHANGEFREQ_MAP_def dict_of_def
      faulty_resolve update_lastmod_def update_priority_def update_changefreq_def
      SubElement_def count_up_def print_def scenario_url_def)

lemma faulty_run:
  "update_sitemap (faulty_env n ok) False scenario_world =
     persist (faulty_env n ok)
       (sitemap_writes (Element (tag scenario_root) (etext scenario_root) [scenario_url])) 3
       (scenario_world\<lparr>stdout := [AddedLastmod ''/'' ''2025-01-15'' ''git'']\<rparr>)"
proof -
  have "files scenario_world ''/srv/site/seo/sitemap.xml'' = Some scenario_content"
    by (simp add: scenario_world_def)
  moreover have "xml_parse (faulty_env n ok) scenario_content = Some scenario_root"
    by (simp add: faulty_env_def scenario_env_def)
  moreover have "stdout scenario_world = []"
    by (simp add: scenario_world_def)
  moreover have "update_entries (faulty_env n ok) False (children scenario_root)
       \<lparr>updated_count = 0, printed = []\<rparr>
     = (Inr [scenario_url],
        \<lparr>updated_count = 3, printed = [AddedLastmod ''/'' ''2025-01-15'' ''git'']\<rparr>)"
    by (simp add: scenario_root_def faulty_entry)
  ultimately show ?thesis
    by (simp add: update_sitemap_def faulty_paths)
qed

lemma scenario_chunks:
  "take 1 (sitemap_writes (Element (tag scenario_root) (etext scenario_root) [scenario_url]))
     = [xml_declaration]"
  "1 < length (sitemap_writes (Element (tag scenario_root) (etext scenario_root) [scenario_url]))"
  by (simp_all add: sitemap_writes_def)

text \<open>
  Claim C4 at a run in which persistence is interrupted before the replacement step: the
  scenario, with the second \<open>write\<close> on the temporary file raising OSError. The exception
  leaves \<open>update_sitemap\<close>, the sitemap file is unchanged, and the temporary file, which
  did not exist before the run, stays in the directory of the sitemap with what was
  written to it. Nothing deletes it: the only clean-up is in the handler around the move.
\<close>

theorem write_failure_leaves_temporary_file:
  "fst (update_sitemap (faulty_env (Some 1) True) False scenario_world) = Inl OSError
   \<and> files (snd (update_sitemap (faulty_env (Some 1) True) False scenario_world))
        ''/srv/site/seo/tmpk3x9.xml'' = Some xml_declaration
   \<and> files (snd (update_sitemap (faulty_env (Some 1) True) False scenario_world))
        ''/srv/site/seo/sitemap.xml'' = Some scenario_content
   \<and> files scenario_world ''/srv/site/seo/tmpk3x9.xml'' = None"
proof -
  have t: "files (scenario_world\<lparr>stdout := [AddedLastmod ''/'' ''2025-01-15'' ''git'']\<rparr>)
             (tmp_path (faulty_env (Some 1) True)) = None"
    by (simp add: faulty_paths scenario_world_def)
  have w: "writes_allowed (faulty_env (Some 1) True) = Some 1"
    by (simp add: faulty_env_def)
  have r: "update_sitemap (faulty_env (Some 1) True) False scenario_world
      = (Inl OSError,
         scenario_world\<lparr>stdout := [AddedLastmod ''/'' ''2025-01-15'' ''git''],
           files := (files scenario_world)(''/srv/site/seo/tmpk3x9.xml'' \<mapsto> xml_declaration)\<rparr>)"
    unfolding faulty_run persist_write_failure [OF t w scenario_chunks(2)] scenario_chunks(1)
      faulty_paths
    by simp
  show ?thesis unfolding r by (simp add: scenario_world_def)
qed

text \<open>The other half of the claim holds in the scenario: when the move fails, the
  exception of line 239 is raised and the files are as before the run, the temporary
  file being deleted.\<close>

lemma move_failure_cleans_up:
  "fst (update_sitemap (faulty_env None False) False scenario_world) = Inl FailedToReplace
   \<and> files (snd (update_sitemap (faulty_env None False) False scenario_world))
        = files scenario_world"
proof -
  have t: "files (scenario_world\<lparr>stdout := [AddedLastmod ''/'' ''2025-01-15'' ''git'']\<rparr>)
             (tmp_path (faulty_env None False)) = None"
    by (simp add: faulty_paths scenario_world_def)
  have w: "writes_allowed (faulty_env None False) = None" "\<not> move_ok (faulty_env None False)"
    by (simp_all add: faulty_env_def)
  have r: "update_sitemap (faulty_env None False) False scenario_world
      = (Inl FailedToReplace,
         scenario_world\<lparr>stdout := [AddedLastmod ''/'' ''2025-01-15'' ''git''],
           files := (files scenario_world)(''/srv/site/seo/tmpk3x9.xml'' := None)\<rparr>)"
    unfolding faulty_run persist_move_failure [OF t w] faulty_paths
    by simp
  show ?thesis unfolding r by (simp add: scenario_world_def fun_eq_iff)
qed

subsection \<open>The written document\<close>

lemma tag_SubElement: "tag (SubElement e t v) = tag e"
  by (simp add: SubElement_def)

lemma tag_set_found_text: "tag (set_found_text n v e) = tag e"
  by (simp add: set_found_text_def)

lemma update_lastmod_tag: "update_lastmod path d src u st = (u', st') \<Longrightarrow> tag u' = tag u"
  by (auto simp: update_lastmod_def Let_def tag_SubElement tag_set_found_text
      split: option.splits if_splits)

lemma update_priority_tag: "update_priority path u st = (u', st') \<Longrightarrow> tag u' = tag u"
  by (auto simp: update_priority_def tag_SubElement tag_set_found_text split: option.splits)

lemma update_changefreq_tag: "update_changefreq path u st = (u', st') \<Longrightarrow> tag u' = tag u"
  by (auto simp: update_changefreq_def tag_SubElement tag_set_found_text split: option.splits)

lemma update_fields_loc:
  assumes "update_fields env fs path u st = (Inr u', st')"
  shows "tag u' = tag u \<and> find_elem ''loc'' u' = find_elem ''loc'' u"
proof (cases "ROUTE_TO_FILE path")
  case None
  then show ?thesis using assms by (simp add: update_fields_def)
next
  case (Some tf)
  show ?thesis
  proof (cases "tf = []")
    case True
    then show ?thesis using assms Some by (simp add: update_fields_def)
  next
    case False
    obtain d src st0 where r: "resolve_lastmod env fs tf st = Inr (d, src, st0)"
      using assms Some False by (auto simp: update_fields_def split: sum.splits)
    obtain u1 st1 where a: "update_lastmod path d src u st0 = (u1, st1)" by force
    obtain u2 st2 where b: "update_priority path u1 st1 = (u2, st2)" by force
    obtain u3 st3 where c: "update_changefreq path u2 st2 = (u3, st3)" by force
    have "u' = u3" using assms Some False r a b c by (simp add: update_fields_def)
    moreover have "tag u3 = tag u"
      using update_lastmod_tag [OF a] update_priority_tag [OF b] update_changefreq_tag [OF c]
      by simp
    moreover have "find_elem ''loc'' u3 = find_elem ''loc'' u"
      using find_other_update_lastmod [OF a, of "''loc''"]
        find_other_update_priority [OF b, of "''loc''"]
        find_other_update_changefreq [OF c, of "''loc''"] by simp
    ultimately show ?thesis by simp
  qed
qed

lemma update_entry_loc:
  "update_entry env fs u st = (Inr u', st') \<Longrightarrow>
     tag u' = tag u \<and> find_elem ''loc'' u' = find_elem ''loc'' u"
  by (auto simp: update_entry_def split: option.splits sum.splits dest: update_fields_loc)

lemma update_entries_locs:
  "update_entries env fs cs st = (Inr cs', st') \<Longrightarrow>
     List.map_filter (find_elem ''loc'') (filter (\<lambda>c. tag c = ns_tag ''url'') cs')
       = List.map_filter (find_elem ''loc'') (filter (\<lambda>c. tag c = ns_tag ''url'') cs)"
proof (induction cs arbitrary: st cs')
  case Nil
  then show ?case by simp
next
  case (Cons c cs)
  show ?case
  proof (cases "tag c = ns_tag ''url''")
    case True
    then obtain c' st1 cs1 where s: "update_entry env fs c st = (Inr c', st1)"
      "update_entries env fs cs st1 = (Inr cs1, st')" "cs' = c' # cs1"
      using Cons.prems by (auto split: prod.splits sum.splits)
    have "tag c' = tag c" "find_elem ''loc'' c' = find_elem ''loc'' c"
      using update_entry_loc [OF s(1)] by simp_all
    then show ?thesis using Cons.IH [OF s(2)] s(3) True by (simp split: option.split)
  next
    case False
    then obtain cs1 where s: "update_entries env fs cs st = (Inr cs1, st')" "cs' = c # cs1"
      using Cons.prems by (auto split: prod.splits sum.splits)
    then show ?thesis using Cons.IH [OF s(1)] False by simp
  qed
qed

lemma input_locs_update:
  "update_entries env fs (children root) st = (Inr cs', st') \<Longrightarrow>
     input_locs (Element t x cs') = input_locs root"
  by (simp add: input_locs_def findall_def update_entries_locs)

lemma written_loc_texts:
  "map loc_text (List.map_filter url_block us)
     = map (\<lambda>l. case etext l of None \<Rightarrow> [] | Some v \<Rightarrow> saxutils_escape v)
         (List.map_filter (find_elem ''loc'') us)"
  by (induction us) (auto simp: url_block_def saxutils_escape_Nil split: option.splits)

lemma input_locs_not_None:
  assumes "update_entries env fs (children root) st = (Inr cs', st')"
  shows "None \<notin> set (input_locs root)"
proof
  assume "None \<in> set (input_locs root)"
  then obtain l where l: "l \<in> set (List.map_filter (find_elem ''loc'') (findall ''url'' root))"
    "etext l = None"
    by (auto simp: input_locs_def)
  then obtain u where u: "u \<in> set (children root)" "tag u = ns_tag ''url''"
    "find_elem ''loc'' u = Some l"
    by (auto simp: List.map_filter_def findall_def)
  show False using update_entries_Inr_loc [OF assms u] l(2) by simp
qed

lemma persist_Inr:
  "persist env chunks n w = (Inr (), w') \<Longrightarrow>
     files w' (sitemap_path env) = Some (concat chunks)"
  by (auto simp: persist_def persist_move_def split: if_splits option.splits)

lemma update_sitemap_Inr:
  assumes "files w (sitemap_path env) = Some content" "xml_parse env content = Some root"
    and "update_sitemap env fs w = (Inr (), w')"
  shows "\<exists>cs st. update_entries env fs (children root) \<lparr>updated_count = 0, printed = []\<rparr>
                    = (Inr cs, st)
           \<and> files w' (sitemap_path env)
               = Some (concat (sitemap_writes (Element (tag root) (etext root) cs)))"
proof (cases "update_entries env fs (children root) \<lparr>updated_count = 0, printed = []\<rparr>")
  case (Pair res st)
  show ?thesis
  proof (cases res)
    case (Inl e)
    then show ?thesis using assms Pair by (simp add: update_sitemap_def)
  next
    case (Inr cs)
    then have "persist env (sitemap_writes (Element (tag root) (etext root) cs))
                 (updated_count st) (w\<lparr>stdout := stdout w @ printed st\<rparr>) = (Inr (), w')"
      using assms Pair by (simp add: update_sitemap_def)
    then show ?thesis using Pair Inr by (auto dest: persist_Inr)
  qed
qed

lemma scenario_success:
  "update_sitemap scenario_env False scenario_world
     = (Inr (), snd (update_sitemap scenario_env False scenario_world))"
proof -
  have "scenario_env = faulty_env None True"
    by (simp add: faulty_env_def scenario_env_def)
  then have "update_sitemap scenario_env False scenario_world =
     persist scenario_env
       (sitemap_writes (Element (tag scenario_root) (etext scenario_root) [scenario_url])) 3
       (scenario_world\<lparr>stdout := [AddedLastmod ''/'' ''2025-01-15'' ''git'']\<rparr>)"
    using faulty_run [of None True] by simp
  moreover have "files (scenario_world\<lparr>stdout := [AddedLastmod ''/'' ''2025-01-15'' ''git'']\<rparr>)
       (tmp_path scenario_env) = None"
    by (simp add: scenario_tmp_path scenario_world_def)
  moreover have "writes_allowed scenario_env = None" "move_ok scenario_env"
    by (simp_all add: scenario_env_def)
  ultimately have "fst (update_sitemap scenario_env False scenario_world) = Inr ()"
    by (simp add: persist_def persist_move_def)
  then show ?thesis by (metis prod.collapse)
qed

lemma scenario_input_locs: "input_locs scenario_root = [Some ''https://yourdomainname.com/'']"
  by (simp add: input_locs_def findall_def scenario_root_def find_elem_def)

lemma scenario_facts:
  "files scenario_world (sitemap_path scenario_env) = Some scenario_content"
  "xml_parse scenario_env scenario_content = Some scenario_root"
  by (simp add: scenario_sitemap_path scenario_world_def) (simp add: scenario_env_def)

lemma saxutils_escape_Nil_iff: "saxutils_escape v = [] \<longleftrightarrow> v = []"
  by (cases v) (simp_all add: saxutils_escape_Nil saxutils_escape_Cons escape_char_def)

lemma optional_text_not_empty: "optional_text e \<noteq> Some []"
  by (simp add: optional_text_def saxutils_escape_Nil_iff split: option.split)

lemma optional_text_None_iff:
  "optional_text e = None \<longleftrightarrow>
     (case e of None \<Rightarrow> True | Some x \<Rightarrow> etext x = None \<or> etext x = Some [])"
  by (simp add: optional_text_def split: option.split)

lemma optional_line_cases:
  "t \<noteq> Some [] \<Longrightarrow>
     optional_line name t =
       (case t of None \<Rightarrow> []
        | Some v \<Rightarrow> [''        <'' @ name @ ''>'' @ v @ ''</'' @ name @ ''>\<newline>''])"
  by (simp add: optional_line_def split: option.split)

lemma url_block_fields:
  "url_block u = Some b \<Longrightarrow>
     lastmod_text b \<noteq> Some [] \<and> changefreq_text b \<noteq> Some [] \<and> priority_text b \<noteq> Some []"
  by (auto simp: url_block_def optional_text_not_empty split: option.splits)

lemma written_blocks_fields:
  assumes "b \<in> set (written_blocks r)"
  shows "lastmod_text b \<noteq> Some [] \<and> changefreq_text b \<noteq> Some [] \<and> priority_text b \<noteq> Some []"
proof -
  obtain u where "url_block u = Some b"
    using assms by (auto simp: written_blocks_def List.map_filter_def)
  then show ?thesis by (rule url_block_fields)
qed

lemma block_writes_lines:
  assumes "lastmod_text b \<noteq> Some []" "changefreq_text b \<noteq> Some []" "priority_text b \<noteq> Some []"
  shows "block_writes b =
           [''    <url>\<newline>'', ''        <loc>'' @ loc_text b @ ''</loc>\<newline>'']
           @ (case lastmod_text b of None \<Rightarrow> []
              | Some v \<Rightarrow> [''        <lastmod>'' @ v @ ''</lastmod>\<newline>''])
           @ (case changefreq_text b of None \<Rightarrow> []
              | Some v \<Rightarrow> [''        <changefreq>'' @ v @ ''</changefreq>\<newline>''])
           @ (case priority_text b of None \<Rightarrow> []
              | Some v \<Rightarrow> [''        <priority>'' @ v @ ''</priority>\<newline>''])
           @ [''    </url>\<newline>'']"
  using assms by (simp add: block_writes_def optional_line_cases split: option.split)

lemma written_locs_nonempty:
  assumes "None \<notin> set (input_locs r)" "Some [] \<notin> set (input_locs r)"
    and "b \<in> set (written_blocks r)"
  shows "loc_text b \<noteq> []"
proof -
  have "loc_text b \<in> set (map loc_text (written_blocks r))" using assms(3) by simp
  then obtain l where l: "l \<in> set (List.map_filter (find_elem ''loc'') (findall ''url'' r))"
    "loc_text b = (case etext l of None \<Rightarrow> [] | Some v \<Rightarrow> saxutils_escape v)"
    unfolding written_blocks_def written_loc_texts by auto
  have "etext l \<in> set (input_locs r)" using l(1) by (simp add: input_locs_def)
  then have "etext l \<noteq> None" "etext l \<noteq> Some []" using assms(1,2) by metis+
  then obtain v where "etext l = Some v" "v \<noteq> []" by auto
  then show ?thesis using l(2) by (simp add: saxutils_escape_Nil_iff)
qed

text \<open>
  Claim C1. The parser never gives an element an empty string as text (an element
  without character data has the text \<open>None\<close>), so no \<open>loc\<close> text of the input is the
  empty string. When a run on such a document succeeds, the sitemap file holds the
  output of the serializer for a document in which every written block has a non-empty
  \<open>loc\<close> text; each of \<open>lastmod\<close>, \<open>changefreq\<close> and \<open>priority\<close> is either absent from the
  block or non-empty, and the block has a line for it exactly when it is present. A field
  is absent from the block exactly when its element is missing or has no or empty text.
\<close>

theorem written_entries_nonempty:
  assumes "files w (sitemap_path env) = Some content" "xml_parse env content = Some root"
    and "update_sitemap env use_filesystem w = (Inr (), w')"
    and "Some [] \<notin> set (input_locs root)"
  shows "(\<exists>root'. files w' (sitemap_path env) = Some (concat (sitemap_writes root'))
           \<and> (\<forall>b \<in> set (written_blocks root').
                 loc_text b \<noteq> [] \<and> lastmod_text b \<noteq> Some []
                 \<and> changefreq_text b \<noteq> Some [] \<and> priority_text b \<noteq> Some []
                 \<and> block_writes b =
                     [''    <url>\<newline>'', ''        <loc>'' @ loc_text b @ ''</loc>\<newline>'']
                     @ (case lastmod_text b of None \<Rightarrow> []
                        | Some v \<Rightarrow> [''        <lastmod>'' @ v @ ''</lastmod>\<newline>''])
                     @ (case changefreq_text b of None \<Rightarrow> []
                        | Some v \<Rightarrow> [''        <changefreq>'' @ v @ ''</changefreq>\<newline>''])
                     @ (case priority_text b of None \<Rightarrow> []
                        | Some v \<Rightarrow> [''        <priority>'' @ v @ ''</priority>\<newline>''])
                     @ [''    </url>\<newline>'']))
         \<and> (optional_text e = None \<longleftrightarrow>
               (case e of None \<Rightarrow> True | Some x \<Rightarrow> etext x = None \<or> etext x = Some []))"
proof -
  obtain cs st where u:
    "update_entries env use_filesystem (children root) \<lparr>updated_count = 0, printed = []\<rparr>
       = (Inr cs, st)"
    "files w' (sitemap_path env)
       = Some (concat (sitemap_writes (Element (tag root) (etext root) cs)))"
    using update_sitemap_Inr [OF assms(1-3)] by blast
  let ?r = "Element (tag root) (etext root) cs"
  have i: "input_locs ?r = input_locs root" using u(1) by (rule input_locs_update)
  have n: "None \<notin> set (input_locs ?r)" using input_locs_not_None [OF u(1)] i by simp
  have e: "Some [] \<notin> set (input_locs ?r)" using assms(4) i by simp
  have "\<forall>b \<in> set (written_blocks ?r).
          loc_text b \<noteq> [] \<and> lastmod_text b \<noteq> Some []
          \<and> changefreq_text b \<noteq> Some [] \<and> priority_text b \<noteq> Some []
          \<and> block_writes b =
              [''    <url>\<newline>'', ''        <loc>'' @ loc_text b @ ''</loc>\<newline>'']
              @ (case lastmod_text b of None \<Rightarrow> []
                 | Some v \<Rightarrow> [''        <lastmod>'' @ v @ ''</lastmod>\<newline>''])
              @ (case changefreq_text b of None \<Rightarrow> []
                 | Some v \<Rightarrow> [''        <changefreq>'' @ v @ ''</changefreq>\<newline>''])
              @ (case priority_text b of None \<Rightarrow> []
                 | Some v \<Rightarrow> [''        <priority>'' @ v @ ''</priority>\<newline>''])
              @ [''    </url>\<newline>'']"
  proof
    fix b
    assume b: "b \<in> set (written_blocks ?r)"
    have f: "lastmod_text b \<noteq> Some []" "changefreq_text b \<noteq> Some []" "priority_text b \<noteq> Some []"
      using written_blocks_fields [OF b] by simp_all
    show "loc_text b \<noteq> [] \<and> lastmod_text b \<noteq> Some []
          \<and> changefreq_text b \<noteq> Some [] \<and> priority_text b \<noteq> Some []
          \<and> block_writes b =
              [''    <url>\<newline>'', ''        <loc>'' @ loc_text b @ ''</loc>\<newline>'']
              @ (case lastmod_text b of None \<Rightarrow> []
                 | Some v \<Rightarrow> [''        <lastmod>'' @ v @ ''</lastmod>\<newline>''])
              @ (case changefreq_text b of None \<Rightarrow> []
                 | Some v \<Rightarrow> [''        <changefreq>'' @ v @ ''</changefreq>\<newline>''])
              @ (case priority_text b of None \<Rightarrow> []
                 | Some v \<Rightarrow> [''        <priority>'' @ v @ ''</priority>\<newline>''])
              @ [''    </url>\<newline>'']"
      using written_locs_nonempty [OF n e b] f block_writes_lines [OF f] by simp
  qed
  then have "\<exists>root'. files w' (sitemap_path env) = Some (concat (sitemap_writes root'))
           \<and> (\<forall>b \<in> set (written_blocks root').
                 loc_text b \<noteq> [] \<and> lastmod_text b \<noteq> Some []
                 \<and> changefreq_text b \<noteq> Some [] \<and> priority_text b \<noteq> Some []
                 \<and> block_writes b =
                     [''    <url>\<newline>'', ''        <loc>'' @ loc_text b @ ''</loc>\<newline>'']
                     @ (case lastmod_text b of None \<Rightarrow> []
                        | Some v \<Rightarrow> [''        <lastmod>'' @ v @ ''</lastmod>\<newline>''])
                     @ (case changefreq_text b of None \<Rightarrow> []
                        | Some v \<Rightarrow> [''        <changefreq>'' @ v @ ''</changefreq>\<newline>''])
                     @ (case priority_text b of None \<Rightarrow> []
                        | Some v \<Rightarrow> [''        <priority>'' @ v @ ''</priority>\<newline>''])
                     @ [''    </url>\<newline>''])"
    using u(2) by (intro exI [of _ ?r] conjI)
  then show ?thesis using optional_text_None_iff [of e] by (intro conjI)
qed

theorem written_entries_nonempty_witness:
  "\<exists>root'. files (snd (update_sitemap scenario_env False scenario_world))
               (sitemap_path scenario_env) = Some (concat (sitemap_writes root'))
         \<and> list_all (\<lambda>b. loc_text b \<noteq> [] \<and> lastmod_text b \<noteq> Some []
               \<and> changefreq_text b \<noteq> Some [] \<and> priority_text b \<noteq> Some [])
             (written_blocks root')"
proof -
  have "Some [] \<notin> set (input_locs scenario_root)" by (simp add: scenario_input_locs)
  from written_entries_nonempty [OF scenario_facts scenario_success this, of None]
  obtain r where "files (snd (update_sitemap scenario_env False scenario_world))
               (sitemap_path scenario_env) = Some (concat (sitemap_writes r))"
    "\<forall>b \<in> set (written_blocks r). loc_text b \<noteq> [] \<and> lastmod_text b \<noteq> Some []
               \<and> changefreq_text b \<noteq> Some [] \<and> priority_text b \<noteq> Some []"
    by blast
  then show ?thesis by (intro exI [of _ r]) (simp add: list_all_iff)
qed

subsection \<open>The order of the written entries\<close>























end
